theory Spec2Isabelle
  imports Main "HOL-Library.Signed_Division"
begin

section \<open>Machine integers\<close>

text \<open>
  The counter library computes on fixed-width C integers. Values are modelled as
  \<^typ>\<open>int\<close> and every conversion of the source is written out: a conversion to a
  signed type of \<open>w\<close> bits keeps the low \<open>w\<close> bits and reads them as two's
  complement, a conversion to \<open>size_t\<close> keeps the low 64 bits as an unsigned number.
  The embedding is of a 64-bit build (\<open>BITS_PER_LONG == 64\<close>); signed arithmetic wraps,
  as it does in a kernel build.
\<close>

definition s_cast :: "nat \<Rightarrow> int \<Rightarrow> int" where
  "s_cast w x = signed_take_bit (w - 1) x"

definition s64 :: "int \<Rightarrow> int" where
  "s64 x = s_cast 64 x"

definition u64 :: "int \<Rightarrow> int" where
  "u64 x = take_bit 64 x"

definition BITS_PER_LONG :: nat where
  "BITS_PER_LONG = 64"

section \<open>Configuration and counter types\<close>

datatype lib_counter_config_alloc = COUNTER_ALLOC_PER_CPU | COUNTER_ALLOC_GLOBAL

datatype lib_counter_config_sync = COUNTER_SYNC_PER_CPU | COUNTER_SYNC_GLOBAL

datatype lib_counter_config_arithmetic =
  COUNTER_ARITHMETIC_OVERFLOW | COUNTER_ARITHMETIC_SATURATE

datatype lib_counter_config_size =
  COUNTER_SIZE_8_BIT | COUNTER_SIZE_16_BIT | COUNTER_SIZE_32_BIT | COUNTER_SIZE_64_BIT

record lib_counter_config =
  alloc :: lib_counter_config_alloc
  sync :: lib_counter_config_sync
  arithmetic :: lib_counter_config_arithmetic
  counter_size :: lib_counter_config_size

text \<open>The enumerators of \<open>counter_size\<close> are the cell sizes in bytes.\<close>

fun size_bytes :: "lib_counter_config_size \<Rightarrow> nat" where
  "size_bytes COUNTER_SIZE_8_BIT = 1"
| "size_bytes COUNTER_SIZE_16_BIT = 2"
| "size_bytes COUNTER_SIZE_32_BIT = 4"
| "size_bytes COUNTER_SIZE_64_BIT = 8"

definition size_bits :: "lib_counter_config_size \<Rightarrow> nat" where
  "size_bits sz = 8 * size_bytes sz"

text \<open>
  \<open>struct lib_counter_dimension\<close>, with the \<open>int64_t\<close> fields of the declaration that
  the counter API is written against.
\<close>

record lib_counter_dimension =
  max_nr_elem :: int
  stride :: int

text \<open>
  \<open>struct lib_counter_layout\<close>: a pointer is modelled by the array it points to, and
  \<open>NULL\<close> by the empty array, which has no element to access. The cell array holds
  signed integers of the configured width; each bitmap has one flag per cell.
\<close>

record lib_counter_layout =
  counters :: "int list"
  underflow_bitmap :: "bool list"
  overflow_bitmap :: "bool list"

text \<open>
  \<open>struct lib_counter\<close>. The union \<open>global_sum_step\<close> is one integer, the member
  of the configured width. \<open>percpu_counters\<close> holds one layout per possible CPU, and
  is empty for a \<open>NULL\<close> per-CPU pointer. The fields \<open>arithmetic\<close> and
  \<open>saturation\<close> of the source are never read or written and are left out.
\<close>

record lib_counter =
  nr_dimensions :: nat
  allocated_elem :: int
  dimensions :: "lib_counter_dimension list"
  global_sum_step :: int
  config :: lib_counter_config
  global_counters :: lib_counter_layout
  percpu_counters :: "lib_counter_layout list"

section \<open>Index resolution\<close>

definition lttng_counter_underflow_index :: "lib_counter_dimension \<Rightarrow> int" where
  "lttng_counter_underflow_index dimension = s64 (max_nr_elem dimension + 1)"

definition lttng_counter_overflow_index :: "lib_counter_dimension \<Rightarrow> int" where
  "lttng_counter_overflow_index dimension = s64 (max_nr_elem dimension + 2)"

text \<open>
  The loop of \<open>lttng_counter_validate_indexes\<close> over \<open>i < nr_dimensions\<close>: the
  dimension table and the index array are walked together. Entries of the index array
  past the last dimension are not touched.
\<close>

fun validate_indexes_loop :: "lib_counter_dimension list \<Rightarrow> int list \<Rightarrow> int list" where
  "validate_indexes_loop (dimension # ds) (dimension_index # rest) =
     (if dimension_index < 0 then lttng_counter_underflow_index dimension
      else if dimension_index \<ge> max_nr_elem dimension then lttng_counter_overflow_index dimension
      else dimension_index) # validate_indexes_loop ds rest"
| "validate_indexes_loop [] rest = rest"
| "validate_indexes_loop ds [] = []"

definition lttng_counter_validate_indexes :: "lib_counter \<Rightarrow> int list \<Rightarrow> int list" where
  "lttng_counter_validate_indexes counter dimension_indexes =
     validate_indexes_loop (take (nr_dimensions counter) (dimensions counter)) dimension_indexes"

text \<open>
  \<open>lttng_counter_get_index\<close>: \<open>index += *dimension_index * dimension->stride\<close> in
  \<open>int64_t\<close>, for every dimension.
\<close>

fun get_index_loop :: "lib_counter_dimension list \<Rightarrow> int list \<Rightarrow> int \<Rightarrow> int" where
  "get_index_loop (dimension # ds) (dimension_index # rest) index =
     get_index_loop ds rest (s64 (index + s64 (dimension_index * stride dimension)))"
| "get_index_loop [] rest index = index"
| "get_index_loop ds [] index = index"

definition lttng_counter_get_index :: "lib_counter \<Rightarrow> int list \<Rightarrow> int" where
  "lttng_counter_get_index counter dimension_indexes =
     get_index_loop (take (nr_dimensions counter) (dimensions counter)) dimension_indexes 0"

text \<open>Includes underflow and overflow elements; the result is a \<open>size_t\<close>.\<close>

definition lttng_counter_get_dimension_nr_elements :: "lib_counter_dimension \<Rightarrow> int" where
  "lttng_counter_get_dimension_nr_elements dimension = u64 (max_nr_elem dimension + 2)"

text \<open>
  \<open>lttng_counter_init_stride\<close> walks the dimensions from the last to the first with a
  running \<open>size_t stride\<close> that starts at 1. The recursion returns the updated
  dimensions together with the running stride after them.
\<close>

fun init_stride_loop :: "lib_counter_dimension list \<Rightarrow> lib_counter_dimension list \<times> int" where
  "init_stride_loop [] = ([], 1)"
| "init_stride_loop (dimension # ds) =
     (case init_stride_loop ds of (ds', stride') \<Rightarrow>
        (dimension\<lparr>stride := s64 stride'\<rparr> # ds',
         u64 (stride' * lttng_counter_get_dimension_nr_elements dimension)))"

definition lttng_counter_init_stride :: "lib_counter \<Rightarrow> lib_counter" where
  "lttng_counter_init_stride counter =
     counter\<lparr>dimensions :=
       fst (init_stride_loop (take (nr_dimensions counter) (dimensions counter)))
       @ drop (nr_dimensions counter) (dimensions counter)\<rparr>"

section \<open>The add primitive\<close>

text \<open>
  Modelled from the spec: the "type's maximum" that step 6 of the add engine compares
  the delta with. The source names it through the macros \<open>U8_MAX\<close>, \<open>U16_MAX\<close> and
  \<open>U32_MAX\<close> of the kernel's \<open>linux/limits.h\<close>, which is not part of the repository:
  there they are \<open>((u8)~0U)\<close>, \<open>((u16)~0U)\<close> and \<open>((u32)~0U)\<close>. The signed limits
  \<open>S8_MAX\<close>, \<open>S16_MAX\<close> and \<open>S32_MAX\<close> used at configuration time come from the
  same header.
\<close>

definition U8_MAX :: int where "U8_MAX = 255"
definition U16_MAX :: int where "U16_MAX = 65535"
definition U32_MAX :: int where "U32_MAX = 4294967295"
definition S8_MAX :: int where "S8_MAX = 127"
definition S16_MAX :: int where "S16_MAX = 32767"
definition S32_MAX :: int where "S32_MAX = 2147483647"

text \<open>
  The unary minus of C. An operand narrower than \<open>int\<close> is promoted to \<open>int\<close> first,
  so \<open>-U8_MAX\<close> and \<open>-U16_MAX\<close> are negative numbers and the negation of an
  \<open>int8_t\<close> or \<open>int16_t\<close> is exact; a signed operand of 32 or 64 bits is negated in
  its own type. \<open>U32_MAX\<close> has the type \<open>u32\<close>, which is not promoted, so
  \<open>-U32_MAX\<close> is computed modulo \<open>2 ^ 32\<close>.
\<close>

definition neg_signed :: "nat \<Rightarrow> int \<Rightarrow> int" where
  "neg_signed w x = s_cast (max w 32) (- x)"

definition neg_u32 :: "int \<Rightarrow> int" where
  "neg_u32 x = take_bit 32 (- x)"

text \<open>
  One pass through the body of the \<open>COUNTER_SYNC_PER_CPU\<close> loop, for cells of \<open>w\<close>
  bits: from the loaded value \<open>old\<close> to the value \<open>n\<close> offered to \<open>cmpxchg_local\<close>
  and the amount \<open>move_sum\<close>.
\<close>

definition percpu_attempt :: "nat \<Rightarrow> int \<Rightarrow> int \<Rightarrow> int \<Rightarrow> int \<times> int" where
  "percpu_attempt w step v old =
     (let n = s_cast w (old + v);
          move_sum = (if n > step then step sdiv 2
                      else if n < neg_signed w step then - (step sdiv 2)
                      else 0)
      in (s_cast w (n - move_sum), move_sum))"

text \<open>The body of the \<open>COUNTER_SYNC_GLOBAL\<close> loop.\<close>

definition global_attempt :: "nat \<Rightarrow> int \<Rightarrow> int \<Rightarrow> int" where
  "global_attempt w v old = s_cast w (old + v)"

text \<open>
  The retry loops \<open>do { ... res = cmpxchg(int_p, old, n); } while (old != res)\<close>.
  Other writers are represented by a schedule: its next element is the content of the
  cell at the moment of the next compare-and-swap. The swap succeeds when that content
  is still \<open>old\<close>; otherwise the loop starts again from the content it found. When the
  schedule is used up nobody else writes, and the swap succeeds. The result is
  \<open>(old, n, move_sum)\<close> of the successful pass.
\<close>

fun cmpxchg_local_loop :: "nat \<Rightarrow> int \<Rightarrow> int \<Rightarrow> int \<Rightarrow> int list \<Rightarrow> int \<times> int \<times> int" where
  "cmpxchg_local_loop w step v res [] =
     (case percpu_attempt w step v res of (n, move_sum) \<Rightarrow> (res, n, move_sum))"
| "cmpxchg_local_loop w step v res (found # sched) =
     (if found = res
      then (case percpu_attempt w step v res of (n, move_sum) \<Rightarrow> (res, n, move_sum))
      else cmpxchg_local_loop w step v found sched)"

fun cmpxchg_loop :: "nat \<Rightarrow> int \<Rightarrow> int \<Rightarrow> int list \<Rightarrow> int \<times> int" where
  "cmpxchg_loop w v res [] = (res, global_attempt w v res)"
| "cmpxchg_loop w v res (found # sched) =
     (if found = res then (res, global_attempt w v res)
      else cmpxchg_loop w v found sched)"

text \<open>
  The classification that follows the loop, one case per cell width as in the source;
  the result is \<open>(overflow, underflow)\<close>.
\<close>

fun classify :: "lib_counter_config_size \<Rightarrow> int \<Rightarrow> int \<Rightarrow> int \<Rightarrow> bool \<times> bool" where
  "classify COUNTER_SIZE_8_BIT v old n =
     (if v > 0 \<and> (v \<ge> U8_MAX \<or> n < old) then (True, False)
      else if v < 0 \<and> (v \<le> - U8_MAX \<or> n > old) then (False, True)
      else (False, False))"
| "classify COUNTER_SIZE_16_BIT v old n =
     (if v > 0 \<and> (v \<ge> U16_MAX \<or> n < old) then (True, False)
      else if v < 0 \<and> (v \<le> - U16_MAX \<or> n > old) then (False, True)
      else (False, False))"
| "classify COUNTER_SIZE_32_BIT v old n =
     (if v > 0 \<and> (v \<ge> U32_MAX \<or> n < old) then (True, False)
      else if v < 0 \<and> (v \<le> neg_u32 U32_MAX \<or> n > old) then (False, True)
      else (False, False))"
| "classify COUNTER_SIZE_64_BIT v old n =
     (if v > 0 \<and> n < old then (True, False)
      else if v < 0 \<and> n > old then (False, True)
      else (False, False))"

text \<open>
  Errors. \<open>EINVAL\<close>, \<open>ENOMEM\<close> and \<open>EOVERFLOW\<close> are the error codes the source
  returns. \<open>FAULT\<close> stands for an access outside the array a pointer points to, where
  the C program has no defined result.
\<close>

datatype error = EINVAL | ENOMEM | EOVERFLOW | FAULT

definition test_bit :: "int \<Rightarrow> bool list \<Rightarrow> bool" where
  "test_bit nr bitmap = bitmap ! nat nr"

definition set_bit :: "int \<Rightarrow> bool list \<Rightarrow> bool list" where
  "set_bit nr bitmap = bitmap[nat nr := True]"

definition in_bounds :: "int \<Rightarrow> 'a list \<Rightarrow> bool" where
  "in_bounds index xs = (0 \<le> index \<and> index < int (length xs))"

text \<open>
  The two sticky bits, as the source sets them: the overflow bit when \<open>overflow\<close> holds
  and the bit is clear, else the underflow bit when \<open>underflow\<close> holds and that bit is
  clear. A bitmap is only touched when its flag is raised.
\<close>

definition mark_bitmaps :: "int \<Rightarrow> bool \<Rightarrow> bool \<Rightarrow> lib_counter_layout \<Rightarrow> error + lib_counter_layout" where
  "mark_bitmaps index overflow underflow layout =
     (if overflow \<and> \<not> in_bounds index (overflow_bitmap layout) then Inl FAULT
      else if overflow \<and> \<not> test_bit index (overflow_bitmap layout)
      then Inr (layout\<lparr>overflow_bitmap := set_bit index (overflow_bitmap layout)\<rparr>)
      else if underflow \<and> \<not> in_bounds index (underflow_bitmap layout) then Inl FAULT
      else if underflow \<and> \<not> test_bit index (underflow_bitmap layout)
      then Inr (layout\<lparr>underflow_bitmap := set_bit index (underflow_bitmap layout)\<rparr>)
      else Inr layout)"

text \<open>
  The layout an operation works on: \<open>&counter->global_counters\<close>, or
  \<open>per_cpu_ptr(counter->percpu_counters, cpu)\<close>. A per-CPU pointer that is \<open>NULL\<close>, or
  a CPU the per-CPU area has no slot for, leads outside the counter.
\<close>

definition get_layout :: "lib_counter_config_alloc \<Rightarrow> nat \<Rightarrow> lib_counter \<Rightarrow> error + lib_counter_layout" where
  "get_layout a cpu counter =
     (case a of
        COUNTER_ALLOC_PER_CPU \<Rightarrow>
          if cpu < length (percpu_counters counter) then Inr (percpu_counters counter ! cpu)
          else Inl FAULT
      | COUNTER_ALLOC_GLOBAL \<Rightarrow> Inr (global_counters counter))"

definition put_layout :: "lib_counter_config_alloc \<Rightarrow> nat \<Rightarrow> lib_counter_layout \<Rightarrow> lib_counter \<Rightarrow> lib_counter" where
  "put_layout a cpu layout counter =
     (case a of
        COUNTER_ALLOC_PER_CPU \<Rightarrow>
          counter\<lparr>percpu_counters := (percpu_counters counter)[cpu := layout]\<rparr>
      | COUNTER_ALLOC_GLOBAL \<Rightarrow> counter\<lparr>global_counters := layout\<rparr>)"

text \<open>
  What one call of the primitive leaves behind: the counter, the returned amount, and a
  record of the successful compare-and-swap (which primitive, on which storage, at which
  offset, from which value to which). The record is not data of the program; it makes
  the synchronisation discipline of a call visible.
\<close>

datatype cas_kind = CMPXCHG_LOCAL | CMPXCHG

record cas_event =
  ev_kind :: cas_kind
  ev_alloc :: lib_counter_config_alloc
  ev_index :: int
  ev_old :: int
  ev_new :: int

record add_result =
  counter_after :: lib_counter
  move_sum :: int
  events :: "cas_event list"

text \<open>
  \<open>__lttng_counter_add\<close>. \<open>cpu\<close> is \<open>smp_processor_id()\<close> and \<open>sched\<close> the schedule
  of the other writers of the cell. The four cases of the switch on
  \<open>config->counter_size\<close> differ in the cell width and in the classification only.
\<close>

definition cell_switch ::
  "lib_counter_config_sync \<Rightarrow> nat \<Rightarrow> int \<Rightarrow> int \<Rightarrow> int \<Rightarrow> int list \<Rightarrow> cas_kind \<times> int \<times> int \<times> int" where
  "cell_switch sy w step v res sched =
     (case sy of
        COUNTER_SYNC_PER_CPU \<Rightarrow>
          (case cmpxchg_local_loop w step v res sched of
             (old, n, moved) \<Rightarrow> (CMPXCHG_LOCAL, old, n, moved))
      | COUNTER_SYNC_GLOBAL \<Rightarrow>
          (case cmpxchg_loop w v res sched of
             (old, n) \<Rightarrow> (CMPXCHG, old, n, 0)))"

definition dunder_lttng_counter_add ::
  "nat \<Rightarrow> lib_counter_config \<Rightarrow> lib_counter_config_alloc \<Rightarrow> lib_counter_config_sync \<Rightarrow>
   lib_counter \<Rightarrow> int list \<Rightarrow> int \<Rightarrow> int list \<Rightarrow> error + add_result" where
  "dunder_lttng_counter_add cpu cfg a sy counter dimension_indexes v sched =
     (let index = lttng_counter_get_index counter dimension_indexes in
      if index \<ge> allocated_elem counter
      then Inr \<lparr>counter_after = counter, move_sum = 0, events = []\<rparr>
      else
        (case get_layout a cpu counter of
           Inl e \<Rightarrow> Inl e
         | Inr layout \<Rightarrow>
             if \<not> in_bounds index (counters layout) then Inl FAULT
             else
               (case cell_switch sy (size_bits (counter_size cfg)) (global_sum_step counter) v
                       (counters layout ! nat index) sched of
                  (kind, old, n, moved) \<Rightarrow>
                    (case classify (counter_size cfg) v old n of
                       (overflow, underflow) \<Rightarrow>
                         (case mark_bitmaps index overflow underflow
                                 (layout\<lparr>counters := (counters layout)[nat index := n]\<rparr>) of
                            Inl e \<Rightarrow> Inl e
                          | Inr layout' \<Rightarrow>
                              Inr \<lparr>counter_after = put_layout a cpu layout' counter,
                                   move_sum = moved,
                                   events = [\<lparr>ev_kind = kind, ev_alloc = a, ev_index = index,
                                              ev_old = old, ev_new = n\<rparr>]\<rparr>)))))"

text \<open>
  \<open>__lttng_counter_add_percpu\<close>: the primitive with the configured allocation and
  synchronisation; when it returns a non-zero amount, the primitive again on the global
  storage with \<open>COUNTER_SYNC_GLOBAL\<close> and that amount as the delta.
\<close>

definition dunder_lttng_counter_add_percpu ::
  "nat \<Rightarrow> lib_counter_config \<Rightarrow> lib_counter \<Rightarrow> int list \<Rightarrow> int \<Rightarrow> int list \<Rightarrow> int list \<Rightarrow>
   error + lib_counter \<times> cas_event list" where
  "dunder_lttng_counter_add_percpu cpu cfg counter dimension_indexes v sched sched' =
     (case dunder_lttng_counter_add cpu cfg (alloc cfg) (sync cfg) counter dimension_indexes v sched of
        Inl e \<Rightarrow> Inl e
      | Inr r \<Rightarrow>
          if move_sum r \<noteq> 0
          then (case dunder_lttng_counter_add cpu cfg COUNTER_ALLOC_GLOBAL COUNTER_SYNC_GLOBAL
                       (counter_after r) dimension_indexes (move_sum r) sched' of
                  Inl e \<Rightarrow> Inl e
                | Inr r' \<Rightarrow> Inr (counter_after r', events r @ events r'))
          else Inr (counter_after r, events r))"

text \<open>\<open>__lttng_counter_add_global\<close>: the primitive once, its result dropped.\<close>

definition dunder_lttng_counter_add_global ::
  "nat \<Rightarrow> lib_counter_config \<Rightarrow> lib_counter \<Rightarrow> int list \<Rightarrow> int \<Rightarrow> int list \<Rightarrow>
   error + lib_counter \<times> cas_event list" where
  "dunder_lttng_counter_add_global cpu cfg counter dimension_indexes v sched =
     (case dunder_lttng_counter_add cpu cfg (alloc cfg) (sync cfg) counter dimension_indexes v sched of
        Inl e \<Rightarrow> Inl e
      | Inr r \<Rightarrow> Inr (counter_after r, events r))"

definition lttng_counter_add ::
  "nat \<Rightarrow> lib_counter_config \<Rightarrow> lib_counter \<Rightarrow> int list \<Rightarrow> int \<Rightarrow> int list \<Rightarrow> int list \<Rightarrow>
   error + lib_counter \<times> cas_event list" where
  "lttng_counter_add cpu cfg counter dimension_indexes v sched sched' =
     (case alloc cfg of
        COUNTER_ALLOC_PER_CPU \<Rightarrow>
          dunder_lttng_counter_add_percpu cpu cfg counter dimension_indexes v sched sched'
      | COUNTER_ALLOC_GLOBAL \<Rightarrow>
          dunder_lttng_counter_add_global cpu cfg counter dimension_indexes v sched)"

definition lttng_counter_inc ::
  "nat \<Rightarrow> lib_counter_config \<Rightarrow> lib_counter \<Rightarrow> int list \<Rightarrow> int list \<Rightarrow> int list \<Rightarrow>
   error + lib_counter \<times> cas_event list" where
  "lttng_counter_inc cpu cfg counter dimension_indexes sched sched' =
     lttng_counter_add cpu cfg counter dimension_indexes 1 sched sched'"

definition lttng_counter_dec ::
  "nat \<Rightarrow> lib_counter_config \<Rightarrow> lib_counter \<Rightarrow> int list \<Rightarrow> int list \<Rightarrow> int list \<Rightarrow>
   error + lib_counter \<times> cas_event list" where
  "lttng_counter_dec cpu cfg counter dimension_indexes sched sched' =
     lttng_counter_add cpu cfg counter dimension_indexes (- 1) sched sched'"

section \<open>Creation\<close>

text \<open>
  \<open>lttng_counter_set_global_sum_step\<close>: the step is stored in the member of the
  configured width.
\<close>

definition lttng_counter_set_global_sum_step :: "lib_counter \<Rightarrow> int \<Rightarrow> error + lib_counter" where
  "lttng_counter_set_global_sum_step counter step =
     (if step < 0 then Inl EINVAL
      else
        (case counter_size (config counter) of
           COUNTER_SIZE_8_BIT \<Rightarrow>
             if step > S8_MAX then Inl EINVAL
             else Inr (counter\<lparr>global_sum_step := s_cast 8 step\<rparr>)
         | COUNTER_SIZE_16_BIT \<Rightarrow>
             if step > S16_MAX then Inl EINVAL
             else Inr (counter\<lparr>global_sum_step := s_cast 16 step\<rparr>)
         | COUNTER_SIZE_32_BIT \<Rightarrow>
             if step > S32_MAX then Inl EINVAL
             else Inr (counter\<lparr>global_sum_step := s_cast 32 step\<rparr>)
         | COUNTER_SIZE_64_BIT \<Rightarrow> Inr (counter\<lparr>global_sum_step := step\<rparr>)))"

text \<open>
  The kernel around the library: the number of possible CPUs, and the allocator. The
  allocation requests of a run are numbered in program order from 0, and \<open>alloc_ok k i\<close>
  tells whether request \<open>i\<close> succeeds. A run keeps the list of its requests; the
  releases of the error path are not listed.
\<close>

record kernel =
  num_possible_cpus :: nat
  alloc_ok :: "nat \<Rightarrow> bool"

datatype alloc_request =
  KZALLOC_COUNTER
| KZALLOC_DIMENSIONS
| ALLOC_PERCPU
| KVZALLOC_COUNTERS int
| KVZALLOC_OVERFLOW_BITMAP int
| KVZALLOC_UNDERFLOW_BITMAP int

definition zero_layout :: lib_counter_layout where
  "zero_layout = \<lparr>counters = [], underflow_bitmap = [], overflow_bitmap = []\<rparr>"

text \<open>The counter after \<open>kzalloc\<close> and \<open>counter->config = *config\<close>.\<close>

definition kzalloc_counter :: "lib_counter_config \<Rightarrow> lib_counter" where
  "kzalloc_counter cfg =
     \<lparr>nr_dimensions = 0, allocated_elem = 0, dimensions = [], global_sum_step = 0,
      config = cfg, global_counters = zero_layout, percpu_counters = []\<rparr>"

text \<open>
  A store through the layout pointer of \<open>lttng_counter_layout_init\<close>: the global
  layout for \<open>cpu == -1\<close>, else \<open>per_cpu_ptr(counter->percpu_counters, cpu)\<close>. With a
  \<open>NULL\<close> per-CPU pointer that address is the start of the CPU's per-CPU area, so the
  store does not change the counter.
\<close>

definition store_layout :: "int \<Rightarrow> (lib_counter_layout \<Rightarrow> lib_counter_layout) \<Rightarrow> lib_counter \<Rightarrow> lib_counter" where
  "store_layout cpu f counter =
     (if cpu = - 1 then counter\<lparr>global_counters := f (global_counters counter)\<rparr>
      else if in_bounds cpu (percpu_counters counter)
      then counter\<lparr>percpu_counters :=
             (percpu_counters counter)[nat cpu := f (percpu_counters counter ! nat cpu)]\<rparr>
      else counter)"

text \<open>
  \<open>lttng_counter_layout_init\<close>: three zeroed allocations of \<open>nr_elem\<close> entries each,
  stopping with \<open>-ENOMEM\<close> at the first one that fails. The result is the return
  value (\<open>None\<close> for 0), the counter and the list of requests.
\<close>

definition lttng_counter_layout_init ::
  "kernel \<Rightarrow> alloc_request list \<Rightarrow> lib_counter \<Rightarrow> int \<Rightarrow> error option \<times> lib_counter \<times> alloc_request list" where
  "lttng_counter_layout_init k log counter cpu =
     (let nr_elem = nat (u64 (allocated_elem counter));
          log1 = log @ [KVZALLOC_COUNTERS cpu];
          log2 = log1 @ [KVZALLOC_OVERFLOW_BITMAP cpu];
          log3 = log2 @ [KVZALLOC_UNDERFLOW_BITMAP cpu]
      in
        if \<not> alloc_ok k (length log)
        then (Some ENOMEM, store_layout cpu (\<lambda>l. l\<lparr>counters := []\<rparr>) counter, log1)
        else
          (let counter1 = store_layout cpu (\<lambda>l. l\<lparr>counters := replicate nr_elem 0\<rparr>) counter in
           if \<not> alloc_ok k (length log1)
           then (Some ENOMEM, store_layout cpu (\<lambda>l. l\<lparr>overflow_bitmap := []\<rparr>) counter1, log2)
           else
             (let counter2 =
                    store_layout cpu (\<lambda>l. l\<lparr>overflow_bitmap := replicate nr_elem False\<rparr>) counter1 in
              if \<not> alloc_ok k (length log2)
              then (Some ENOMEM, store_layout cpu (\<lambda>l. l\<lparr>underflow_bitmap := []\<rparr>) counter2, log3)
              else
                (None,
                 store_layout cpu (\<lambda>l. l\<lparr>underflow_bitmap := replicate nr_elem False\<rparr>) counter2,
                 log3))))"

text \<open>The loop \<open>for (cpu = 0; cpu < num_possible_cpus(); cpu++)\<close> of the creation.\<close>

fun layout_init_cpus ::
  "kernel \<Rightarrow> alloc_request list \<Rightarrow> lib_counter \<Rightarrow> nat list \<Rightarrow> error option \<times> lib_counter \<times> alloc_request list" where
  "layout_init_cpus k log counter [] = (None, counter, log)"
| "layout_init_cpus k log counter (cpu # cpus) =
     (case lttng_counter_layout_init k log counter (int cpu) of
        (Some e, counter', log') \<Rightarrow> (Some e, counter', log')
      | (None, counter', log') \<Rightarrow> layout_init_cpus k log' counter' cpus)"

text \<open>The product \<open>nr_elem *= lttng_counter_get_dimension_nr_elements(...)\<close>, a \<open>size_t\<close>.\<close>

fun nr_elem_loop :: "lib_counter_dimension list \<Rightarrow> int \<Rightarrow> int" where
  "nr_elem_loop [] nr_elem = nr_elem"
| "nr_elem_loop (dimension # ds) nr_elem =
     nr_elem_loop ds (u64 (nr_elem * lttng_counter_get_dimension_nr_elements dimension))"

text \<open>
  \<open>lttng_counter_create\<close>, in three parts. The last part computes strides and sizes and
  initialises the layouts: the global one, then one per possible CPU.
\<close>

definition create_layouts :: "kernel \<Rightarrow> lib_counter \<Rightarrow> alloc_request list \<Rightarrow> lib_counter option \<times> alloc_request list" where
  "create_layouts k counter log =
     (let counter1 = lttng_counter_init_stride counter;
          nr_elem = nr_elem_loop (take (nr_dimensions counter1) (dimensions counter1)) 1;
          counter2 = counter1\<lparr>allocated_elem := s64 nr_elem\<rparr>
      in
        (case lttng_counter_layout_init k log counter2 (- 1) of
           (Some e, counter3, log') \<Rightarrow> (None, log')
         | (None, counter3, log') \<Rightarrow>
             (case layout_init_cpus k log' counter3 [0..<num_possible_cpus k] of
                (Some e, counter4, log'') \<Rightarrow> (None, log'')
              | (None, counter4, log'') \<Rightarrow> (Some counter4, log''))))"

text \<open>The middle part: the per-CPU layout structures, for \<open>COUNTER_ALLOC_PER_CPU\<close> only.\<close>

definition create_percpu ::
  "kernel \<Rightarrow> lib_counter_config \<Rightarrow> lib_counter \<Rightarrow> alloc_request list \<Rightarrow> lib_counter option \<times> alloc_request list" where
  "create_percpu k cfg counter log =
     (if alloc cfg = COUNTER_ALLOC_PER_CPU
      then
        (if \<not> alloc_ok k (length log) then (None, log @ [ALLOC_PERCPU])
         else create_layouts k
                (counter\<lparr>percpu_counters := replicate (num_possible_cpus k) zero_layout\<rparr>)
                (log @ [ALLOC_PERCPU]))
      else create_layouts k counter log)"

text \<open>
  The first part. \<open>nr_dimensions\<close> is the length of the array \<open>max_nr_elem\<close>, whose
  \<open>size_t\<close> entries are stored in \<open>int64_t\<close> fields. Every failure returns \<open>NULL\<close>.
\<close>

definition lttng_counter_create ::
  "kernel \<Rightarrow> lib_counter_config \<Rightarrow> int list \<Rightarrow> int \<Rightarrow> lib_counter option \<times> alloc_request list" where
  "lttng_counter_create k cfg max_nr_elems step =
     (if BITS_PER_LONG \<noteq> 64 \<and> counter_size cfg = COUNTER_SIZE_64_BIT then (None, [])
      else if \<not> alloc_ok k 0 then (None, [KZALLOC_COUNTER])
      else
        (case lttng_counter_set_global_sum_step (kzalloc_counter cfg) step of
           Inl e \<Rightarrow> (None, [KZALLOC_COUNTER])
         | Inr counter \<Rightarrow>
             if \<not> alloc_ok k 1 then (None, [KZALLOC_COUNTER, KZALLOC_DIMENSIONS])
             else create_percpu k cfg
                    (counter\<lparr>nr_dimensions := length max_nr_elems,
                             dimensions := map (\<lambda>m. \<lparr>max_nr_elem = s64 m, stride = 0\<rparr>) max_nr_elems\<rparr>)
                    [KZALLOC_COUNTER, KZALLOC_DIMENSIONS]))"

section \<open>Reading\<close>

text \<open>The layout selected by \<open>lttng_counter_read\<close> for its \<open>cpu\<close> argument.\<close>

definition read_layout :: "kernel \<Rightarrow> lib_counter_config \<Rightarrow> lib_counter \<Rightarrow> int \<Rightarrow> error + lib_counter_layout" where
  "read_layout k cfg counter cpu =
     (case alloc cfg of
        COUNTER_ALLOC_PER_CPU \<Rightarrow>
          if cpu \<ge> 0 then
            (if cpu \<ge> int (num_possible_cpus k) then Inl EINVAL
             else if in_bounds cpu (percpu_counters counter)
             then Inr (percpu_counters counter ! nat cpu)
             else Inl FAULT)
          else Inr (global_counters counter)
      | COUNTER_ALLOC_GLOBAL \<Rightarrow>
          if cpu \<ge> 0 then Inl EINVAL else Inr (global_counters counter))"

text \<open>
  \<open>lttng_counter_read\<close>. The offset is a \<open>size_t\<close> here, and its comparison with
  \<open>allocated_elem\<close> is unsigned. The result is \<open>(*value, *overflow, *underflow)\<close>.
\<close>

definition lttng_counter_read ::
  "kernel \<Rightarrow> lib_counter_config \<Rightarrow> lib_counter \<Rightarrow> int list \<Rightarrow> int \<Rightarrow> error + int \<times> bool \<times> bool" where
  "lttng_counter_read k cfg counter dimension_indexes cpu =
     (let index = u64 (lttng_counter_get_index counter dimension_indexes) in
      if index \<ge> u64 (allocated_elem counter) then Inl EOVERFLOW
      else
        (case read_layout k cfg counter cpu of
           Inl e \<Rightarrow> Inl e
         | Inr layout \<Rightarrow>
             if in_bounds index (counters layout)
                \<and> in_bounds index (overflow_bitmap layout)
                \<and> in_bounds index (underflow_bitmap layout)
             then Inr (counters layout ! nat index,
                       test_bit index (overflow_bitmap layout),
                       test_bit index (underflow_bitmap layout))
             else Inl FAULT))"

text \<open>
  The per-CPU loop of \<open>lttng_counter_aggregate\<close>, with the running sum \<open>acc\<close> and the
  two flags; the result starts with the return value (\<open>None\<close> for 0).
\<close>

fun aggregate_cpus ::
  "kernel \<Rightarrow> lib_counter_config \<Rightarrow> lib_counter \<Rightarrow> int list \<Rightarrow> nat list \<Rightarrow> int \<Rightarrow> bool \<Rightarrow> bool \<Rightarrow>
   error option \<times> int \<times> bool \<times> bool" where
  "aggregate_cpus k cfg counter dimension_indexes [] acc ov un = (None, acc, ov, un)"
| "aggregate_cpus k cfg counter dimension_indexes (cpu # cpus) acc ov un =
     (case lttng_counter_read k cfg counter dimension_indexes (int cpu) of
        Inl e \<Rightarrow> (Some e, acc, ov, un)
      | Inr (v, ovf, unf) \<Rightarrow>
          (let old = acc;
               acc' = s64 (u64 old + u64 v)
           in if v > 0 \<and> acc' < old
              then aggregate_cpus k cfg counter dimension_indexes cpus acc' True (un \<or> unf)
              else if v < 0 \<and> acc' > old
              then aggregate_cpus k cfg counter dimension_indexes cpus acc' (ov \<or> ovf) True
              else aggregate_cpus k cfg counter dimension_indexes cpus acc' (ov \<or> ovf) (un \<or> unf)))"

text \<open>
  \<open>lttng_counter_aggregate\<close>. \<open>value0\<close> is what the caller's \<open>*value\<close> holds before
  the call; the result is the return value with \<open>*value\<close>, \<open>*overflow\<close> and
  \<open>*underflow\<close> after it. The source accumulates into its local \<open>sum\<close> and has no
  assignment to \<open>*value\<close>.
\<close>

definition lttng_counter_aggregate ::
  "kernel \<Rightarrow> lib_counter_config \<Rightarrow> lib_counter \<Rightarrow> int list \<Rightarrow> int \<Rightarrow> error option \<times> int \<times> bool \<times> bool" where
  "lttng_counter_aggregate k cfg counter dimension_indexes value0 =
     (case lttng_counter_read k cfg counter dimension_indexes (- 1) of
        Inl e \<Rightarrow> (Some e, value0, False, False)
      | Inr (v, ovf, unf) \<Rightarrow>
          (case alloc cfg of
             COUNTER_ALLOC_PER_CPU \<Rightarrow>
               (case aggregate_cpus k cfg counter dimension_indexes [0..<num_possible_cpus k]
                       (s64 (0 + v)) ovf unf of
                  (ret, acc, ov, un) \<Rightarrow> (ret, value0, ov, un))
           | COUNTER_ALLOC_GLOBAL \<Rightarrow> (None, value0, ovf, unf)))"

section \<open>Runs and shapes used in the statements\<close>

text \<open>
  A layout holds the cell of an offset when the offset lies inside its cell array and
  inside both bitmaps.
\<close>

definition layout_has :: "int \<Rightarrow> lib_counter_layout \<Rightarrow> bool" where
  "layout_has index layout =
     (in_bounds index (counters layout) \<and> in_bounds index (overflow_bitmap layout)
      \<and> in_bounds index (underflow_bitmap layout))"

text \<open>
  A counter is ready for an index tuple on a CPU when the tuple resolves to the offset
  \<open>index\<close>, the offset is below \<open>allocated_elem\<close>, and both the layout of that CPU
  and the global layout hold the cell.
\<close>

definition cell_ready :: "nat \<Rightarrow> int list \<Rightarrow> int \<Rightarrow> lib_counter \<Rightarrow> bool" where
  "cell_ready cpu dimension_indexes index counter =
     (lttng_counter_get_index counter dimension_indexes = index
      \<and> index < allocated_elem counter
      \<and> cpu < length (percpu_counters counter)
      \<and> layout_has index (percpu_counters counter ! cpu)
      \<and> layout_has index (global_counters counter))"

text \<open>The number of compare-and-swap operations that a call made on the global storage.\<close>

definition on_global :: "cas_event list \<Rightarrow> nat" where
  "on_global evs = length (filter (\<lambda>e. ev_alloc e = COUNTER_ALLOC_GLOBAL) evs)"

text \<open>
  A sequential run of \<open>m\<close> calls of \<open>lttng_counter_inc\<close> on one CPU, with no other
  writer. Next to the counter it returns the number of migrations, that is of
  operations on the global storage.
\<close>

fun inc_run :: "nat \<Rightarrow> nat \<Rightarrow> lib_counter_config \<Rightarrow> int list \<Rightarrow> lib_counter \<Rightarrow> error + lib_counter \<times> nat" where
  "inc_run 0 cpu cfg dimension_indexes counter = Inr (counter, 0)"
| "inc_run (Suc m) cpu cfg dimension_indexes counter =
     (case inc_run m cpu cfg dimension_indexes counter of
        Inl e \<Rightarrow> Inl e
      | Inr (counter', migrations) \<Rightarrow>
          (case lttng_counter_inc cpu cfg counter' dimension_indexes [] [] of
             Inl e \<Rightarrow> Inl e
           | Inr (counter'', evs) \<Rightarrow> Inr (counter'', migrations + on_global evs)))"

section \<open>Example configurations\<close>

text \<open>A kernel with two possible CPUs in which every allocation succeeds.\<close>

definition kernel2 :: kernel where
  "kernel2 = \<lparr>num_possible_cpus = 2, alloc_ok = (\<lambda>_. True)\<rparr>"

definition config32_global :: lib_counter_config where
  "config32_global =
     \<lparr>alloc = COUNTER_ALLOC_GLOBAL, sync = COUNTER_SYNC_GLOBAL,
      arithmetic = COUNTER_ARITHMETIC_OVERFLOW, counter_size = COUNTER_SIZE_32_BIT\<rparr>"

definition config32_percpu :: lib_counter_config where
  "config32_percpu =
     \<lparr>alloc = COUNTER_ALLOC_PER_CPU, sync = COUNTER_SYNC_PER_CPU,
      arithmetic = COUNTER_ARITHMETIC_OVERFLOW, counter_size = COUNTER_SIZE_32_BIT\<rparr>"

definition config8 :: "lib_counter_config_alloc \<Rightarrow> lib_counter_config_sync \<Rightarrow> lib_counter_config" where
  "config8 a sy =
     \<lparr>alloc = a, sync = sy, arithmetic = COUNTER_ARITHMETIC_OVERFLOW,
      counter_size = COUNTER_SIZE_8_BIT\<rparr>"

definition config8_percpu :: lib_counter_config where
  "config8_percpu = config8 COUNTER_ALLOC_PER_CPU COUNTER_SYNC_PER_CPU"

definition config8_global :: lib_counter_config where
  "config8_global = config8 COUNTER_ALLOC_GLOBAL COUNTER_SYNC_GLOBAL"

definition config8_global_local :: lib_counter_config where
  "config8_global_local = config8 COUNTER_ALLOC_GLOBAL COUNTER_SYNC_PER_CPU"

text \<open>
  The counter that \<open>lttng_counter_create\<close> returns for one dimension of 4 elements,
  32-bit cells, global allocation and step 0: six cells, offsets 0 to 5.
\<close>

definition counter4 :: lib_counter where
  "counter4 =
     \<lparr>nr_dimensions = 1, allocated_elem = 6,
      dimensions = [\<lparr>max_nr_elem = 4, stride = 1\<rparr>], global_sum_step = 0,
      config = config32_global,
      global_counters =
        \<lparr>counters = [0, 0, 0, 0, 0, 0],
         underflow_bitmap = [False, False, False, False, False, False],
         overflow_bitmap = [False, False, False, False, False, False]\<rparr>,
      percpu_counters = []\<rparr>"

text \<open>
  Counters of the same shape with other configurations, steps and contents. \<open>layout4 x\<close>
  holds \<open>x\<close> in the cell of offset 2 with all sticky bits clear; \<open>layout4_ov x\<close> has
  the overflow bit of that cell set.
\<close>

definition layout4 :: "int \<Rightarrow> lib_counter_layout" where
  "layout4 x =
     \<lparr>counters = [0, 0, x, 0, 0, 0],
      underflow_bitmap = [False, False, False, False, False, False],
      overflow_bitmap = [False, False, False, False, False, False]\<rparr>"

definition layout4_ov :: "int \<Rightarrow> lib_counter_layout" where
  "layout4_ov x =
     \<lparr>counters = [0, 0, x, 0, 0, 0],
      underflow_bitmap = [False, False, False, False, False, False],
      overflow_bitmap = [False, False, True, False, False, False]\<rparr>"

definition counter4_with ::
  "lib_counter_config \<Rightarrow> int \<Rightarrow> lib_counter_layout \<Rightarrow> lib_counter_layout list \<Rightarrow> lib_counter" where
  "counter4_with cfg step g ps =
     \<lparr>nr_dimensions = 1, allocated_elem = 6,
      dimensions = [\<lparr>max_nr_elem = 4, stride = 1\<rparr>], global_sum_step = step,
      config = cfg, global_counters = g, percpu_counters = ps\<rparr>"

section \<open>Index resolution: the sentinel slots\<close>

text \<open>
  Claim C1. The claim: for a dimension of \<open>max_nr_elem\<close> elements, an index below 0
  is replaced by the underflow sentinel \<open>max_nr_elem\<close>, an index of \<open>max_nr_elem\<close> or
  more by the overflow sentinel \<open>max_nr_elem + 1\<close>, and an index in range is kept.
  The source replaces them by \<open>max_nr_elem + 1\<close> and \<open>max_nr_elem + 2\<close>: for the
  created counter of one dimension of 4 elements, index \<open>-1\<close> becomes 5 (not 4), and
  indexes 10 and 4 become 6 (not 5), which is past the 4 + 2 slots of the dimension.
  An index in range is kept.
\<close>

theorem validate_indexes_sentinels_one_too_high:
  "fst (lttng_counter_create kernel2 config32_global [4] 0) = Some counter4
   \<and> lttng_counter_validate_indexes counter4 [- 1] = [5]
   \<and> lttng_counter_validate_indexes counter4 [10] = [6]
   \<and> lttng_counter_validate_indexes counter4 [4] = [6]
   \<and> lttng_counter_validate_indexes counter4 [3] = [3]
   \<and> lttng_counter_get_dimension_nr_elements \<lparr>max_nr_elem = 4, stride = 1\<rparr> = 6"
  by code_simp

text \<open>
  Claim C2. The claim: validation followed by \<open>lttng_counter_get_index\<close> always gives
  an offset with \<open>0 \<le> offset < allocated_elem\<close>, so that the out-of-range branch of
  \<open>__lttng_counter_add\<close> is never taken. On the created counter of one dimension of 4
  elements (6 cells), index 4 is validated to 6 and resolves to offset 6, which equals
  \<open>allocated_elem\<close>; the add primitive then takes its out-of-range branch: it returns 0,
  performs no compare-and-swap and leaves the counter as it was.
\<close>

theorem resolved_offset_reaches_allocated_elem:
  "fst (lttng_counter_create kernel2 config32_global [4] 0) = Some counter4
   \<and> allocated_elem counter4 = 6
   \<and> lttng_counter_get_index counter4 (lttng_counter_validate_indexes counter4 [4]) = 6
   \<and> dunder_lttng_counter_add 0 config32_global COUNTER_ALLOC_GLOBAL COUNTER_SYNC_GLOBAL
        counter4 (lttng_counter_validate_indexes counter4 [4]) 1 []
      = Inr \<lparr>counter_after = counter4, move_sum = 0, events = []\<rparr>"
  by code_simp

text \<open>
  Claim C9. For a counter with a single dimension of \<open>N\<close> elements, resolution
  (validation, then \<open>lttng_counter_get_index\<close>) is constant on each side of the range:
  every index below 0 resolves to the offset of index \<open>-1\<close>, and every index of \<open>N\<close>
  or more to the offset of index \<open>N\<close>. \<open>N\<close> counts elements, so it is not negative.
\<close>

theorem index_resolution_constant_out_of_range:
  assumes "nr_dimensions counter = 1" and "dimensions counter = [dimension]"
  shows "(i < 0 \<longrightarrow>
            lttng_counter_get_index counter (lttng_counter_validate_indexes counter [i])
          = lttng_counter_get_index counter (lttng_counter_validate_indexes counter [- 1]))
       \<and> (0 \<le> max_nr_elem dimension \<and> max_nr_elem dimension \<le> i \<longrightarrow>
            lttng_counter_get_index counter (lttng_counter_validate_indexes counter [i])
          = lttng_counter_get_index counter
              (lttng_counter_validate_indexes counter [max_nr_elem dimension]))"
  using assms
  by (simp add: lttng_counter_get_index_def lttng_counter_validate_indexes_def)

theorem index_resolution_constant_out_of_range_witness:
  "lttng_counter_get_index counter4 (lttng_counter_validate_indexes counter4 [- 7])
     = lttng_counter_get_index counter4 (lttng_counter_validate_indexes counter4 [- 1])
   \<and> lttng_counter_get_index counter4 (lttng_counter_validate_indexes counter4 [9])
     = lttng_counter_get_index counter4 (lttng_counter_validate_indexes counter4 [4])"
proof -
  have n: "nr_dimensions counter4 = 1" by (simp add: counter4_def)
  have d: "dimensions counter4 = [\<lparr>max_nr_elem = 4, stride = 1\<rparr>]" by (simp add: counter4_def)
  show ?thesis
    using index_resolution_constant_out_of_range [OF n d, of "- 7"]
          index_resolution_constant_out_of_range [OF n d, of 9]
    by simp
qed

section \<open>Creation\<close>

text \<open>
  Claim C3. The claim: with \<open>COUNTER_ALLOC_GLOBAL\<close> the creation allocates the global
  cell storage and no per-CPU cell storage. The creation guards \<open>alloc_percpu\<close> by the
  allocation mode, but not its loop over the possible CPUs: on two CPUs the requests
  of a global counter include the cell array and the two bitmaps of CPU 0 and of CPU 1,
  after those of the global layout (\<open>-1\<close>), while the per-CPU pointer of the counter
  stays \<open>NULL\<close>.
\<close>

theorem create_global_requests_percpu_storage:
  "lttng_counter_create kernel2 config32_global [4] 0 =
     (Some counter4,
      [KZALLOC_COUNTER, KZALLOC_DIMENSIONS,
       KVZALLOC_COUNTERS (- 1), KVZALLOC_OVERFLOW_BITMAP (- 1), KVZALLOC_UNDERFLOW_BITMAP (- 1),
       KVZALLOC_COUNTERS 0, KVZALLOC_OVERFLOW_BITMAP 0, KVZALLOC_UNDERFLOW_BITMAP 0,
       KVZALLOC_COUNTERS 1, KVZALLOC_OVERFLOW_BITMAP 1, KVZALLOC_UNDERFLOW_BITMAP 1])
   \<and> percpu_counters counter4 = []"
  by code_simp

text \<open>
  Claim C10. A negative \<open>global_sum_step\<close> is refused by
  \<open>lttng_counter_set_global_sum_step\<close> with \<open>-EINVAL\<close>, whatever the cell width and
  however small its magnitude, and \<open>lttng_counter_create\<close> then returns no counter.
\<close>

theorem negative_global_sum_step_rejected:
  "step < 0 \<Longrightarrow>
     lttng_counter_set_global_sum_step counter step = Inl EINVAL
     \<and> fst (lttng_counter_create k cfg max_nr_elems step) = None"
  by (simp add: lttng_counter_set_global_sum_step_def lttng_counter_create_def)

theorem negative_global_sum_step_rejected_witness:
  "lttng_counter_set_global_sum_step (kzalloc_counter config32_global) (- 1) = Inl EINVAL
   \<and> fst (lttng_counter_create kernel2 config32_global [4] (- 1)) = None"
  using negative_global_sum_step_rejected
          [of "- 1" "kzalloc_counter config32_global" kernel2 config32_global "[4]"]
  by simp

section \<open>The add primitive: arithmetic\<close>

lemma s_cast_lower: "- (2 ^ (w - 1)) \<le> s_cast w x"
  by (simp add: s_cast_def)

lemma s_cast_upper: "s_cast w x < 2 ^ (w - 1)"
  by (simp add: s_cast_def)

lemma s_cast_id: "- (2 ^ (w - 1)) \<le> x \<Longrightarrow> x < 2 ^ (w - 1) \<Longrightarrow> s_cast w x = x"
  by (simp add: s_cast_def signed_take_bit_int_eq_self)

lemma s_cast_s_cast: "s_cast w (s_cast w x) = s_cast w x"
  by (simp add: s_cast_def)

lemma s_cast_add_left: "s_cast w (s_cast w x + y) = s_cast w (x + y)"
  unfolding s_cast_def
  by (metis signed_take_bit_add signed_take_bit_signed_take_bit min.idem)

lemma sdiv_two_nonneg: "0 \<le> (s::int) \<Longrightarrow> s sdiv 2 = s div 2"
  by (simp add: signed_divide_int_def sgn_if)

lemma neg_signed_id:
  assumes "0 \<le> s" "s < 2 ^ (w - 1)"
  shows "neg_signed w s = - s"
proof -
  have "(2::int) ^ (w - 1) \<le> 2 ^ (max w 32 - 1)"
    by (rule power_increasing) auto
  with assms show ?thesis
    unfolding neg_signed_def by (intro s_cast_id) linarith+
qed

text \<open>
  A step that \<open>lttng_counter_set_global_sum_step\<close> has stored is not negative and fits
  the signed cell type.
\<close>

lemma set_global_sum_step_range:
  assumes "lttng_counter_set_global_sum_step counter step = Inr counter'" and "step < 2 ^ 63"
  shows "0 \<le> global_sum_step counter'"
    and "global_sum_step counter' < 2 ^ (size_bits (counter_size (config counter)) - 1)"
  using assms
  by (auto simp: lttng_counter_set_global_sum_step_def s_cast_def size_bits_def
        S8_MAX_def S16_MAX_def S32_MAX_def signed_take_bit_int_eq_self
      split: if_splits lib_counter_config_size.splits)

text \<open>
  With such a step, one pass of the per-CPU loop moves half a step out of a sum beyond
  the step, and no intermediate value wraps.
\<close>

lemma percpu_attempt_cases:
  assumes "0 \<le> s" "s < 2 ^ (w - 1)"
  shows "percpu_attempt w s v old =
     (let n = s_cast w (old + v) in
      if n > s then (n - s div 2, s div 2)
      else if n < - s then (n + s div 2, - (s div 2))
      else (n, 0))"
proof -
  let ?n = "s_cast w (old + v)"
  have lo: "- (2 ^ (w - 1)) \<le> ?n" and hi: "?n < 2 ^ (w - 1)"
    by (rule s_cast_lower, rule s_cast_upper)
  have h: "0 \<le> s div 2" "s div 2 \<le> s" using assms by auto
  have a: "?n > s \<Longrightarrow> s_cast w (?n - s div 2) = ?n - s div 2"
    using lo hi h assms by (intro s_cast_id) linarith+
  have b: "?n < - s \<Longrightarrow> s_cast w (?n + s div 2) = ?n + s div 2"
    using lo hi h assms by (intro s_cast_id) linarith+
  show ?thesis
    using a b assms
    by (simp add: percpu_attempt_def Let_def neg_signed_id sdiv_two_nonneg s_cast_s_cast)
qed

text \<open>
  The retry loops return the values of their successful pass; the value they started
  from is one that the cell held, and the cell's own when nobody else writes.
\<close>

lemma cmpxchg_local_loop_result:
  "cmpxchg_local_loop w s v res sched = (old, n, m) \<Longrightarrow>
     percpu_attempt w s v old = (n, m) \<and> old \<in> set (res # sched) \<and> (sched = [] \<longrightarrow> old = res)"
proof (induction sched arbitrary: res)
  case Nil
  then show ?case by (auto split: prod.splits)
next
  case (Cons found sched)
  show ?case
  proof (cases "found = res")
    case True
    with Cons.prems show ?thesis by (auto split: prod.splits)
  next
    case False
    with Cons.prems have "cmpxchg_local_loop w s v found sched = (old, n, m)" by simp
    from Cons.IH [OF this] show ?thesis by auto
  qed
qed

lemma cmpxchg_loop_result:
  "cmpxchg_loop w v res sched = (old, n) \<Longrightarrow>
     n = global_attempt w v old \<and> old \<in> set (res # sched) \<and> (sched = [] \<longrightarrow> old = res)"
proof (induction sched arbitrary: res)
  case Nil
  then show ?case by auto
next
  case (Cons found sched)
  show ?case
  proof (cases "found = res")
    case True
    with Cons.prems show ?thesis by auto
  next
    case False
    with Cons.prems have "cmpxchg_loop w v found sched = (old, n)" by simp
    from Cons.IH [OF this] show ?thesis by auto
  qed
qed

lemma cell_switch_stored:
  assumes "cell_switch sy w s v res sched = (kind, old, n, moved)"
  shows "n = s_cast w (s_cast w (old + v) - moved)"
    and "sy = COUNTER_SYNC_GLOBAL \<longrightarrow> moved = 0 \<and> kind = CMPXCHG"
    and "sy = COUNTER_SYNC_PER_CPU \<longrightarrow> kind = CMPXCHG_LOCAL"
    and "old \<in> set (res # sched)"
    and "sched = [] \<longrightarrow> old = res"
proof -
  show "n = s_cast w (s_cast w (old + v) - moved)"
  proof (cases sy)
    case COUNTER_SYNC_PER_CPU
    with assms have "cmpxchg_local_loop w s v res sched = (old, n, moved)"
      by (auto simp: cell_switch_def split: prod.splits)
    from cmpxchg_local_loop_result [OF this] show ?thesis
      by (auto simp: percpu_attempt_def Let_def)
  next
    case COUNTER_SYNC_GLOBAL
    with assms have "cmpxchg_loop w v res sched = (old, n)" and "moved = 0"
      by (auto simp: cell_switch_def split: prod.splits)
    with cmpxchg_loop_result [of w v res sched old n] show ?thesis
      by (simp add: global_attempt_def s_cast_s_cast)
  qed
  show "sy = COUNTER_SYNC_GLOBAL \<longrightarrow> moved = 0 \<and> kind = CMPXCHG"
    using assms by (auto simp: cell_switch_def split: prod.splits)
  show "sy = COUNTER_SYNC_PER_CPU \<longrightarrow> kind = CMPXCHG_LOCAL"
    using assms by (auto simp: cell_switch_def split: prod.splits)
  show "old \<in> set (res # sched)" and "sched = [] \<longrightarrow> old = res"
    using assms cmpxchg_local_loop_result [of w s v res sched old n moved]
      cmpxchg_loop_result [of w v res sched old n]
    by (cases sy; auto simp: cell_switch_def split: prod.splits)+
qed

text \<open>The classification, read against the unsigned maximum \<open>2 ^ w - 1\<close> of the cell width.\<close>

lemma classify_exclusive: "classify sz v old n = (ov, un) \<Longrightarrow> \<not> (ov \<and> un)"
  by (cases sz) (auto split: if_splits)

lemma classify_overflow:
  assumes "classify sz v old n = (ov, un)" "v < 2 ^ 63"
  shows "ov = (v > 0 \<and> (v \<ge> 2 ^ size_bits sz - 1 \<or> n < old))"
  using assms
  by (cases sz) (auto simp: size_bits_def U8_MAX_def U16_MAX_def U32_MAX_def split: if_splits)

lemma classify_underflow:
  assumes "classify sz v old n = (ov, un)" "- (2 ^ 63) \<le> v" "sz \<noteq> COUNTER_SIZE_32_BIT"
  shows "un = (v < 0 \<and> (v \<le> - (2 ^ size_bits sz - 1) \<or> n > old))"
  using assms
  by (cases sz) (auto simp: size_bits_def U8_MAX_def U16_MAX_def split: if_splits)

text \<open>
  At 32 bits the comparison \<open>v <= -U32_MAX\<close> is a comparison with 1, so that every
  negative delta is classified as an underflow.
\<close>

lemma underflow_32_bit_every_negative_delta:
  "v < 0 \<Longrightarrow> classify COUNTER_SIZE_32_BIT v old n = (False, True)"
  by (simp add: neg_u32_def U32_MAX_def)

section \<open>The add primitive: effect on the counter\<close>

lemma in_bounds_nat: "in_bounds index xs \<Longrightarrow> nat index < length xs"
  by (auto simp: in_bounds_def)

lemma mark_bitmaps_result:
  assumes "mark_bitmaps index ov un layout = Inr layout'" and "\<not> (ov \<and> un)"
  shows "counters layout' = counters layout"
    and "length (overflow_bitmap layout') = length (overflow_bitmap layout)"
    and "length (underflow_bitmap layout') = length (underflow_bitmap layout)"
    and "test_bit index (overflow_bitmap layout') = (test_bit index (overflow_bitmap layout) \<or> ov)"
    and "test_bit index (underflow_bitmap layout') = (test_bit index (underflow_bitmap layout) \<or> un)"
  using assms
  by (auto simp: mark_bitmaps_def test_bit_def set_bit_def in_bounds_def split: if_splits)

lemma mark_bitmaps_total:
  assumes "in_bounds index (overflow_bitmap layout)" "in_bounds index (underflow_bitmap layout)"
  shows "\<exists>layout'. mark_bitmaps index ov un layout = Inr layout'"
  using assms by (simp add: mark_bitmaps_def)

lemma get_put_layout:
  assumes "get_layout a cpu counter = Inr layout"
  shows "get_layout a cpu (put_layout a cpu layout' counter) = Inr layout'"
  using assms by (cases a) (auto simp: get_layout_def put_layout_def split: if_splits)

lemma put_layout_frame:
  "lttng_counter_get_index (put_layout a cpu l c) di = lttng_counter_get_index c di"
  "allocated_elem (put_layout a cpu l c) = allocated_elem c"
  "global_sum_step (put_layout a cpu l c) = global_sum_step c"
  "length (percpu_counters (put_layout a cpu l c)) = length (percpu_counters c)"
  by (cases a; simp add: put_layout_def lttng_counter_get_index_def)+

lemma put_layout_percpu:
  "cpu < length (percpu_counters c) \<Longrightarrow>
     percpu_counters (put_layout COUNTER_ALLOC_PER_CPU cpu l c) ! cpu = l"
  "global_counters (put_layout COUNTER_ALLOC_PER_CPU cpu l c) = global_counters c"
  by (simp_all add: put_layout_def)

lemma put_layout_global:
  "global_counters (put_layout COUNTER_ALLOC_GLOBAL cpu l c) = l"
  "percpu_counters (put_layout COUNTER_ALLOC_GLOBAL cpu l c) = percpu_counters c"
  by (simp_all add: put_layout_def)

lemma layout_has_update:
  assumes "layout_has index layout"
    and "counters layout' = (counters layout)[nat index := n]"
    and "length (overflow_bitmap layout') = length (overflow_bitmap layout)"
    and "length (underflow_bitmap layout') = length (underflow_bitmap layout)"
  shows "layout_has index layout'" and "counters layout' ! nat index = n"
  using assms by (auto simp: layout_has_def in_bounds_def)

lemma dunder_add_out_of_range:
  assumes "lttng_counter_get_index counter dimension_indexes \<ge> allocated_elem counter"
  shows "dunder_lttng_counter_add cpu cfg a sy counter dimension_indexes v sched
           = Inr \<lparr>counter_after = counter, move_sum = 0, events = []\<rparr>"
  using assms by (simp add: dunder_lttng_counter_add_def)

lemma dunder_add_in_range:
  assumes "lttng_counter_get_index counter dimension_indexes = index"
    and "index < allocated_elem counter"
    and "get_layout a cpu counter = Inr layout"
    and "in_bounds index (counters layout)"
    and "cell_switch sy (size_bits (counter_size cfg)) (global_sum_step counter) v
           (counters layout ! nat index) sched = (kind, old, n, moved)"
    and "classify (counter_size cfg) v old n = (ov, un)"
  shows "dunder_lttng_counter_add cpu cfg a sy counter dimension_indexes v sched =
           (case mark_bitmaps index ov un (layout\<lparr>counters := (counters layout)[nat index := n]\<rparr>) of
              Inl e \<Rightarrow> Inl e
            | Inr layout' \<Rightarrow>
                Inr \<lparr>counter_after = put_layout a cpu layout' counter, move_sum = moved,
                     events = [\<lparr>ev_kind = kind, ev_alloc = a, ev_index = index,
                                ev_old = old, ev_new = n\<rparr>]\<rparr>)"
  using assms by (simp add: dunder_lttng_counter_add_def)

text \<open>What a call that performed a compare-and-swap has done.\<close>

lemma dunder_add_event:
  assumes "dunder_lttng_counter_add cpu cfg a sy counter dimension_indexes v sched = Inr r"
    and "events r = [e]"
  obtains layout layout' kind ov un where
    "lttng_counter_get_index counter dimension_indexes = ev_index e"
    "ev_index e < allocated_elem counter"
    "get_layout a cpu counter = Inr layout"
    "in_bounds (ev_index e) (counters layout)"
    "cell_switch sy (size_bits (counter_size cfg)) (global_sum_step counter) v
       (counters layout ! nat (ev_index e)) sched = (kind, ev_old e, ev_new e, move_sum r)"
    "classify (counter_size cfg) v (ev_old e) (ev_new e) = (ov, un)"
    "mark_bitmaps (ev_index e) ov un
       (layout\<lparr>counters := (counters layout)[nat (ev_index e) := ev_new e]\<rparr>) = Inr layout'"
    "counter_after r = put_layout a cpu layout' counter"
    "ev_kind e = kind" "ev_alloc e = a"
proof -
  let ?index = "lttng_counter_get_index counter dimension_indexes"
  have inr: "?index < allocated_elem counter"
    using assms by (auto simp: dunder_lttng_counter_add_def Let_def split: if_splits)
  obtain layout where l: "get_layout a cpu counter = Inr layout"
    using assms inr by (auto simp: dunder_lttng_counter_add_def Let_def split: if_splits sum.splits)
  have b: "in_bounds ?index (counters layout)"
    using assms inr l by (auto simp: dunder_lttng_counter_add_def Let_def split: if_splits)
  obtain kind old n moved where cs:
    "cell_switch sy (size_bits (counter_size cfg)) (global_sum_step counter) v
       (counters layout ! nat ?index) sched = (kind, old, n, moved)"
    by (metis prod_cases4)
  obtain ov un where cl: "classify (counter_size cfg) v old n = (ov, un)"
    by (metis surj_pair)
  note eq = dunder_add_in_range [OF refl inr l b cs cl]
  obtain layout' where m:
    "mark_bitmaps ?index ov un (layout\<lparr>counters := (counters layout)[nat ?index := n]\<rparr>) = Inr layout'"
    using assms(1) eq by (auto split: sum.splits)
  have r: "r = \<lparr>counter_after = put_layout a cpu layout' counter, move_sum = moved,
                 events = [\<lparr>ev_kind = kind, ev_alloc = a, ev_index = ?index,
                            ev_old = old, ev_new = n\<rparr>]\<rparr>"
    using assms(1) eq m by simp
  then have e: "e = \<lparr>ev_kind = kind, ev_alloc = a, ev_index = ?index, ev_old = old, ev_new = n\<rparr>"
    using assms(2) by simp
  show thesis
    using that [of layout kind ov un layout'] inr l b cs cl m r e by simp
qed

text \<open>A call on a cell that its layout holds succeeds with one compare-and-swap.\<close>

lemma dunder_add_step:
  assumes "lttng_counter_get_index c di = index" and "index < allocated_elem c"
    and "get_layout a cpu c = Inr layout" and "layout_has index layout"
  shows "\<exists>r e layout'.
           dunder_lttng_counter_add cpu cfg a sy c di v sched = Inr r
         \<and> events r = [e] \<and> ev_alloc e = a \<and> ev_index e = index
         \<and> cell_switch sy (size_bits (counter_size cfg)) (global_sum_step c) v
              (counters layout ! nat index) sched = (ev_kind e, ev_old e, ev_new e, move_sum r)
         \<and> counter_after r = put_layout a cpu layout' c
         \<and> counters layout' = (counters layout)[nat index := ev_new e]
         \<and> length (overflow_bitmap layout') = length (overflow_bitmap layout)
         \<and> length (underflow_bitmap layout') = length (underflow_bitmap layout)"
proof -
  obtain kind old n moved where cs:
    "cell_switch sy (size_bits (counter_size cfg)) (global_sum_step c) v
       (counters layout ! nat index) sched = (kind, old, n, moved)"
    by (metis prod_cases4)
  obtain ov un where cl: "classify (counter_size cfg) v old n = (ov, un)"
    by (metis surj_pair)
  let ?l1 = "layout\<lparr>counters := (counters layout)[nat index := n]\<rparr>"
  have b: "in_bounds index (counters layout)"
    and "in_bounds index (overflow_bitmap ?l1)" and "in_bounds index (underflow_bitmap ?l1)"
    using assms(4) by (simp_all add: layout_has_def)
  then obtain layout' where m: "mark_bitmaps index ov un ?l1 = Inr layout'"
    using mark_bitmaps_total by blast
  note mr = mark_bitmaps_result [OF m classify_exclusive [OF cl]]
  let ?e = "\<lparr>ev_kind = kind, ev_alloc = a, ev_index = index, ev_old = old, ev_new = n\<rparr>"
  let ?r = "\<lparr>counter_after = put_layout a cpu layout' c, move_sum = moved, events = [?e]\<rparr>"
  have "dunder_lttng_counter_add cpu cfg a sy c di v sched = Inr ?r"
    using dunder_add_in_range [OF assms(1,2,3) b cs cl] m by simp
  then show ?thesis
    using cs mr(1,2,3)
    by (intro exI [of _ ?r] exI [of _ ?e] exI [of _ layout']) simp
qed

section \<open>Migration\<close>

text \<open>
  Claim C5. A call of the primitive on per-CPU storage with \<open>cmpxchg_local\<close>, on a
  cell that the layout of the calling CPU holds, with the step \<open>S\<close> of the counter (not
  negative and within the cell type, as the creation stores it): the call succeeds with
  one \<open>cmpxchg_local\<close> from a value \<open>old\<close> that the cell held, and with \<open>n\<close> the
  wrapped sum of \<open>old\<close> and the delta: if \<open>n > S\<close> it returns \<open>S / 2\<close> and stores
  \<open>n - S / 2\<close>; if \<open>n < -S\<close> it returns \<open>-(S / 2)\<close> and stores \<open>n + S / 2\<close>;
  otherwise it returns 0 and stores \<open>n\<close>. With \<open>S = 0\<close> it returns 0. The value
  stored is the new content of the cell of the calling CPU.
\<close>

theorem percpu_add_migration:
  assumes "lttng_counter_get_index counter dimension_indexes = index"
    and "index < allocated_elem counter"
    and "cpu < length (percpu_counters counter)"
    and "layout_has index (percpu_counters counter ! cpu)"
    and "0 \<le> global_sum_step counter"
    and "global_sum_step counter < 2 ^ (size_bits (counter_size cfg) - 1)"
  shows "\<exists>r e.
           dunder_lttng_counter_add cpu cfg COUNTER_ALLOC_PER_CPU COUNTER_SYNC_PER_CPU
             counter dimension_indexes v sched = Inr r
         \<and> events r = [e]
         \<and> ev_kind e = CMPXCHG_LOCAL \<and> ev_index e = index
         \<and> ev_old e \<in> set (counters (percpu_counters counter ! cpu) ! nat index # sched)
         \<and> (let S = global_sum_step counter;
                 n = s_cast (size_bits (counter_size cfg)) (ev_old e + v)
             in (if n > S then move_sum r = S div 2 \<and> ev_new e = n - S div 2
                 else if n < - S then move_sum r = - (S div 2) \<and> ev_new e = n + S div 2
                 else move_sum r = 0 \<and> ev_new e = n)
              \<and> (S = 0 \<longrightarrow> move_sum r = 0))
         \<and> cpu < length (percpu_counters (counter_after r))
         \<and> counters (percpu_counters (counter_after r) ! cpu) ! nat index = ev_new e"
proof -
  let ?w = "size_bits (counter_size cfg)"
  let ?S = "global_sum_step counter"
  let ?pl = "percpu_counters counter ! cpu"
  have pl: "get_layout COUNTER_ALLOC_PER_CPU cpu counter = Inr ?pl"
    using assms(3) by (simp add: get_layout_def)
  from dunder_add_step [OF assms(1,2) pl assms(4), of cfg COUNTER_SYNC_PER_CPU v sched]
  obtain r e l' where
    run: "dunder_lttng_counter_add cpu cfg COUNTER_ALLOC_PER_CPU COUNTER_SYNC_PER_CPU
            counter dimension_indexes v sched = Inr r"
    and ev: "events r = [e]" and ei: "ev_index e = index"
    and cs: "cell_switch COUNTER_SYNC_PER_CPU ?w ?S v (counters ?pl ! nat index) sched
               = (ev_kind e, ev_old e, ev_new e, move_sum r)"
    and ca: "counter_after r = put_layout COUNTER_ALLOC_PER_CPU cpu l' counter"
    and lc: "counters l' = (counters ?pl)[nat index := ev_new e]"
    and lo: "length (overflow_bitmap l') = length (overflow_bitmap ?pl)"
    and lu: "length (underflow_bitmap l') = length (underflow_bitmap ?pl)"
    by blast
  note st = cell_switch_stored [OF cs]
  have k: "ev_kind e = CMPXCHG_LOCAL" using st(3) by simp
  have loop: "cmpxchg_local_loop ?w ?S v (counters ?pl ! nat index) sched
                = (ev_old e, ev_new e, move_sum r)"
    using cs by (auto simp: cell_switch_def split: prod.splits)
  from cmpxchg_local_loop_result [OF loop]
  have att: "percpu_attempt ?w ?S v (ev_old e) = (ev_new e, move_sum r)" by simp
  have amount: "let S = ?S; n = s_cast ?w (ev_old e + v)
                in (if n > S then move_sum r = S div 2 \<and> ev_new e = n - S div 2
                    else if n < - S then move_sum r = - (S div 2) \<and> ev_new e = n + S div 2
                    else move_sum r = 0 \<and> ev_new e = n)
                 \<and> (S = 0 \<longrightarrow> move_sum r = 0)"
    using att by (auto simp: percpu_attempt_cases [OF assms(5,6)] Let_def split: if_splits)
  have len: "cpu < length (percpu_counters (counter_after r))"
    using assms(3) by (simp add: ca put_layout_frame)
  have stored: "counters (percpu_counters (counter_after r) ! cpu) ! nat index = ev_new e"
    using layout_has_update(2) [OF assms(4) lc lo lu] assms(3)
    by (simp add: ca put_layout_percpu)
  show ?thesis
    using run ev k ei st(4) amount len stored
    by (intro exI [of _ r] exI [of _ e]) simp
qed

theorem percpu_add_migration_witness:
  "dunder_lttng_counter_add 0 config8_percpu COUNTER_ALLOC_PER_CPU COUNTER_SYNC_PER_CPU
       (counter4_with config8_percpu 10 (layout4 0) [layout4 10, layout4 0]) [2] 1 []
     = Inr \<lparr>counter_after =
               counter4_with config8_percpu 10 (layout4 0) [layout4_ov 6, layout4 0],
             move_sum = 5,
             events = [\<lparr>ev_kind = CMPXCHG_LOCAL, ev_alloc = COUNTER_ALLOC_PER_CPU,
                        ev_index = 2, ev_old = 10, ev_new = 6\<rparr>]\<rparr>
   \<and> s_cast 8 (10 + 1) > (10::int)
   \<and> (5::int) = 10 div 2
   \<and> (6::int) = s_cast 8 (10 + 1) - 10 div 2"
proof -
  let ?c = "counter4_with config8_percpu 10 (layout4 0) [layout4 10, layout4 0]"
  have i: "lttng_counter_get_index ?c [2] = 2" by code_simp
  have b: "2 < allocated_elem ?c" by (simp add: counter4_with_def)
  have c: "0 < length (percpu_counters ?c)" by (simp add: counter4_with_def)
  have h: "layout_has 2 (percpu_counters ?c ! 0)" by code_simp
  have s0: "0 \<le> global_sum_step ?c" by (simp add: counter4_with_def)
  have s1: "global_sum_step ?c < 2 ^ (size_bits (counter_size config8_percpu) - 1)"
    by (simp add: counter4_with_def config8_percpu_def config8_def size_bits_def)
  have run: "dunder_lttng_counter_add 0 config8_percpu COUNTER_ALLOC_PER_CPU COUNTER_SYNC_PER_CPU
               ?c [2] 1 []
             = Inr \<lparr>counter_after =
                       counter4_with config8_percpu 10 (layout4 0) [layout4_ov 6, layout4 0],
                     move_sum = 5,
                     events = [\<lparr>ev_kind = CMPXCHG_LOCAL, ev_alloc = COUNTER_ALLOC_PER_CPU,
                                ev_index = 2, ev_old = 10, ev_new = 6\<rparr>]\<rparr>"
    by code_simp
  have n: "s_cast 8 (10 + 1) = (11::int)" by code_simp
  show ?thesis
    using percpu_add_migration [OF i b c h s0 s1, of 1 "[]"] run n by simp
qed

section \<open>Wrap-around and the sticky bits\<close>

text \<open>
  Claim C7, as the claim states it: the new cell value is the wrapped \<open>old + delta\<close>, and
  the overflow bit is set when \<open>delta > 0\<close> and the stored value is not greater than
  \<open>old\<close>. On the created 8-bit per-CPU counter with step 2, two increments bring the
  cell to 2; the third one computes 3, moves 1 out, stores 2 and leaves the overflow bit
  clear, although the stored value 2 is not greater than the old value 2.
\<close>

theorem add_stores_and_marks_counterexample:
  "fst (lttng_counter_create kernel2 config8_percpu [4] 2)
     = Some (counter4_with config8_percpu 2 (layout4 0) [layout4 0, layout4 0])
   \<and> inc_run 2 0 config8_percpu [2]
         (counter4_with config8_percpu 2 (layout4 0) [layout4 0, layout4 0])
     = Inr (counter4_with config8_percpu 2 (layout4 0) [layout4 2, layout4 0], 0)
   \<and> dunder_lttng_counter_add 0 config8_percpu COUNTER_ALLOC_PER_CPU COUNTER_SYNC_PER_CPU
         (counter4_with config8_percpu 2 (layout4 0) [layout4 2, layout4 0]) [2] 1 []
     = Inr \<lparr>counter_after = counter4_with config8_percpu 2 (layout4 0) [layout4 2, layout4 0],
             move_sum = 1,
             events = [\<lparr>ev_kind = CMPXCHG_LOCAL, ev_alloc = COUNTER_ALLOC_PER_CPU, ev_index = 2,
                        ev_old = 2, ev_new = 2\<rparr>]\<rparr>
   \<and> s_cast 8 (2 + 1) = (3::int)
   \<and> test_bit 2 (overflow_bitmap (layout4 2)) = False"
  by code_simp

text \<open>
  Claim C7, amended. For every cell width \<open>w\<close> and every call of the primitive with a
  64-bit delta \<open>v\<close> on a cell that its layout holds: the call succeeds with one
  compare-and-swap from a value \<open>old\<close> that the cell held; the stored value is the
  wrapped \<open>old + v\<close> less the returned amount, wrapped again (the returned amount is 0
  with \<open>COUNTER_SYNC_GLOBAL\<close>); the overflow bit of the cell afterwards is its value
  before, or \<open>v > 0\<close> with \<open>v \<ge> 2 ^ w - 1\<close> or the stored value strictly below
  \<open>old\<close>; and for cells of 8, 16 or 64 bits the underflow bit afterwards is its value
  before, or \<open>v < 0\<close> with \<open>v \<le> -(2 ^ w - 1)\<close> or the stored value strictly above
  \<open>old\<close>. Nothing is said about the underflow bit of 32-bit cells.
\<close>

theorem add_stores_and_marks:
  assumes "lttng_counter_get_index counter dimension_indexes = index"
    and "index < allocated_elem counter"
    and "get_layout a cpu counter = Inr layout"
    and "layout_has index layout"
    and "- (2 ^ 63) \<le> v" and "v < 2 ^ 63"
  shows "\<exists>r e layout'.
           dunder_lttng_counter_add cpu cfg a sy counter dimension_indexes v sched = Inr r
         \<and> events r = [e] \<and> ev_index e = index
         \<and> get_layout a cpu (counter_after r) = Inr layout'
         \<and> ev_old e \<in> set (counters layout ! nat index # sched)
         \<and> (let w = size_bits (counter_size cfg) in
              ev_new e = s_cast w (s_cast w (ev_old e + v) - move_sum r)
            \<and> (sy = COUNTER_SYNC_GLOBAL \<longrightarrow> move_sum r = 0)
            \<and> counters layout' ! nat index = ev_new e
            \<and> test_bit index (overflow_bitmap layout')
                = (test_bit index (overflow_bitmap layout)
                   \<or> (0 < v \<and> (2 ^ w - 1 \<le> v \<or> ev_new e < ev_old e)))
            \<and> (counter_size cfg \<noteq> COUNTER_SIZE_32_BIT \<longrightarrow>
                 test_bit index (underflow_bitmap layout')
                 = (test_bit index (underflow_bitmap layout)
                    \<or> (v < 0 \<and> (v \<le> - (2 ^ w - 1) \<or> ev_old e < ev_new e)))))"
proof -
  let ?w = "size_bits (counter_size cfg)"
  from dunder_add_step [OF assms(1,2,3,4), of cfg sy v sched]
  obtain r e where
    run: "dunder_lttng_counter_add cpu cfg a sy counter dimension_indexes v sched = Inr r"
    and ev: "events r = [e]" and ei: "ev_index e = index"
    by blast
  from run ev obtain layout0 layout' kind ov un where
    l: "get_layout a cpu counter = Inr layout0"
    and cs: "cell_switch sy ?w (global_sum_step counter) v
               (counters layout0 ! nat (ev_index e)) sched = (kind, ev_old e, ev_new e, move_sum r)"
    and cl: "classify (counter_size cfg) v (ev_old e) (ev_new e) = (ov, un)"
    and m: "mark_bitmaps (ev_index e) ov un
              (layout0\<lparr>counters := (counters layout0)[nat (ev_index e) := ev_new e]\<rparr>) = Inr layout'"
    and ca: "counter_after r = put_layout a cpu layout' counter"
    by (rule dunder_add_event)
  from l assms(3) have same: "layout0 = layout" by simp
  note mr = mark_bitmaps_result [OF m classify_exclusive [OF cl]]
  note st = cell_switch_stored [OF cs]
  have b: "in_bounds index (counters layout)" using assms(4) by (simp add: layout_has_def)
  have l': "get_layout a cpu (counter_after r) = Inr layout'"
    unfolding ca by (rule get_put_layout [OF assms(3)])
  have stored: "counters layout' ! nat index = ev_new e"
    using mr(1) in_bounds_nat [OF b] by (simp add: same ei)
  have ovb: "test_bit index (overflow_bitmap layout')
               = (test_bit index (overflow_bitmap layout)
                  \<or> (0 < v \<and> (2 ^ ?w - 1 \<le> v \<or> ev_new e < ev_old e)))"
    using mr(4) classify_overflow [OF cl assms(6)] by (simp add: same ei)
  have unb: "counter_size cfg \<noteq> COUNTER_SIZE_32_BIT \<longrightarrow>
               test_bit index (underflow_bitmap layout')
               = (test_bit index (underflow_bitmap layout)
                  \<or> (v < 0 \<and> (v \<le> - (2 ^ ?w - 1) \<or> ev_old e < ev_new e)))"
    using mr(5) classify_underflow [OF cl assms(5)] by (simp add: same ei)
  have old: "ev_old e \<in> set (counters layout ! nat index # sched)"
    using st(4) by (simp add: same ei)
  show ?thesis
    using run ev ei l' old stored ovb unb st(1,2)
    by (intro exI [of _ r] exI [of _ e] exI [of _ layout']) (simp add: Let_def)
qed

text \<open>
  The example of claim C7: adding 200 to an 8-bit cell that holds 0 stores
  \<open>200 mod 256\<close> read as a signed byte, \<open>-56\<close>, and sets the overflow bit, which is
  still set after a later addition of 1.
\<close>

theorem add_stores_and_marks_witness:
  "dunder_lttng_counter_add 0 config8_global COUNTER_ALLOC_GLOBAL COUNTER_SYNC_GLOBAL
       (counter4_with config8_global 0 (layout4 0) []) [2] 200 []
     = Inr \<lparr>counter_after = counter4_with config8_global 0 (layout4_ov (- 56)) [],
             move_sum = 0,
             events = [\<lparr>ev_kind = CMPXCHG, ev_alloc = COUNTER_ALLOC_GLOBAL, ev_index = 2,
                        ev_old = 0, ev_new = - 56\<rparr>]\<rparr>
   \<and> s_cast 8 (200 mod 256) = (- 56::int)
   \<and> test_bit 2 (overflow_bitmap (layout4_ov (- 56)))
   \<and> dunder_lttng_counter_add 0 config8_global COUNTER_ALLOC_GLOBAL COUNTER_SYNC_GLOBAL
       (counter4_with config8_global 0 (layout4_ov (- 56)) []) [2] 1 []
     = Inr \<lparr>counter_after = counter4_with config8_global 0 (layout4_ov (- 55)) [],
             move_sum = 0,
             events = [\<lparr>ev_kind = CMPXCHG, ev_alloc = COUNTER_ALLOC_GLOBAL, ev_index = 2,
                        ev_old = - 56, ev_new = - 55\<rparr>]\<rparr>
   \<and> test_bit 2 (overflow_bitmap (layout4_ov (- 55)))"
proof -
  let ?c0 = "counter4_with config8_global 0 (layout4 0) []"
  let ?c1 = "counter4_with config8_global 0 (layout4_ov (- 56)) []"
  have i0: "lttng_counter_get_index ?c0 [2] = 2" and i1: "lttng_counter_get_index ?c1 [2] = 2"
    by code_simp+
  have a0: "2 < allocated_elem ?c0" and a1: "2 < allocated_elem ?c1"
    by (simp_all add: counter4_with_def)
  have g0: "get_layout COUNTER_ALLOC_GLOBAL 0 ?c0 = Inr (layout4 0)"
    and g1: "get_layout COUNTER_ALLOC_GLOBAL 0 ?c1 = Inr (layout4_ov (- 56))"
    by (simp_all add: get_layout_def counter4_with_def)
  have h0: "layout_has 2 (layout4 0)" and h1: "layout_has 2 (layout4_ov (- 56))"
    by code_simp+
  have v1: "- (2 ^ 63) \<le> (200::int)" "(200::int) < 2 ^ 63"
    and v2: "- (2 ^ 63) \<le> (1::int)" "(1::int) < 2 ^ 63"
    by simp_all
  have run1: "dunder_lttng_counter_add 0 config8_global COUNTER_ALLOC_GLOBAL COUNTER_SYNC_GLOBAL
                ?c0 [2] 200 []
              = Inr \<lparr>counter_after = ?c1, move_sum = 0,
                      events = [\<lparr>ev_kind = CMPXCHG, ev_alloc = COUNTER_ALLOC_GLOBAL,
                                 ev_index = 2, ev_old = 0, ev_new = - 56\<rparr>]\<rparr>"
    by code_simp
  have run2: "dunder_lttng_counter_add 0 config8_global COUNTER_ALLOC_GLOBAL COUNTER_SYNC_GLOBAL
                ?c1 [2] 1 []
              = Inr \<lparr>counter_after = counter4_with config8_global 0 (layout4_ov (- 55)) [],
                      move_sum = 0,
                      events = [\<lparr>ev_kind = CMPXCHG, ev_alloc = COUNTER_ALLOC_GLOBAL,
                                 ev_index = 2, ev_old = - 56, ev_new = - 55\<rparr>]\<rparr>"
    by code_simp
  have n: "s_cast 8 (200 mod 256) = (- 56::int)" by code_simp
  have b1: "test_bit 2 (overflow_bitmap (layout4_ov (- 56)))"
    and b2: "test_bit 2 (overflow_bitmap (layout4_ov (- 55)))"
    by code_simp+
  show ?thesis
    using add_stores_and_marks
            [OF i0 a0 g0 h0 v1, of config8_global COUNTER_SYNC_GLOBAL "[]"]
          add_stores_and_marks
            [OF i1 a1 g1 h1 v2, of config8_global COUNTER_SYNC_GLOBAL "[]"]
          run1 run2 n b1 b2
    by simp
qed

section \<open>Global allocation\<close>

text \<open>
  Claim C4, as the claim states it: with \<open>COUNTER_ALLOC_GLOBAL\<close> the add operation uses
  \<open>cmpxchg\<close>, moves nothing and stores the wrapped \<open>old + delta\<close>, whatever the step
  and the configured synchronisation. On the created 8-bit counter with global
  allocation, \<open>COUNTER_SYNC_PER_CPU\<close> and step 2, every add uses \<open>cmpxchg_local\<close>, and
  the third increment finds 2, computes 3, takes 1 out as the amount to move and stores
  2; \<open>__lttng_counter_add_global\<close> drops the amount.
\<close>

theorem global_add_with_local_sync_counterexample:
  "fst (lttng_counter_create kernel2 config8_global_local [4] 2)
     = Some (counter4_with config8_global_local 2 (layout4 0) [])
   \<and> lttng_counter_add 0 config8_global_local
         (counter4_with config8_global_local 2 (layout4 0) []) [2] 1 [] []
     = Inr (counter4_with config8_global_local 2 (layout4 1) [],
            [\<lparr>ev_kind = CMPXCHG_LOCAL, ev_alloc = COUNTER_ALLOC_GLOBAL, ev_index = 2,
              ev_old = 0, ev_new = 1\<rparr>])
   \<and> lttng_counter_add 0 config8_global_local
         (counter4_with config8_global_local 2 (layout4 1) []) [2] 1 [] []
     = Inr (counter4_with config8_global_local 2 (layout4 2) [],
            [\<lparr>ev_kind = CMPXCHG_LOCAL, ev_alloc = COUNTER_ALLOC_GLOBAL, ev_index = 2,
              ev_old = 1, ev_new = 2\<rparr>])
   \<and> lttng_counter_add 0 config8_global_local
         (counter4_with config8_global_local 2 (layout4 2) []) [2] 1 [] []
     = Inr (counter4_with config8_global_local 2 (layout4 2) [],
            [\<lparr>ev_kind = CMPXCHG_LOCAL, ev_alloc = COUNTER_ALLOC_GLOBAL, ev_index = 2,
              ev_old = 2, ev_new = 2\<rparr>])
   \<and> dunder_lttng_counter_add 0 config8_global_local COUNTER_ALLOC_GLOBAL COUNTER_SYNC_PER_CPU
         (counter4_with config8_global_local 2 (layout4 2) []) [2] 1 []
     = Inr \<lparr>counter_after = counter4_with config8_global_local 2 (layout4 2) [],
             move_sum = 1,
             events = [\<lparr>ev_kind = CMPXCHG_LOCAL, ev_alloc = COUNTER_ALLOC_GLOBAL, ev_index = 2,
                        ev_old = 2, ev_new = 2\<rparr>]\<rparr>
   \<and> s_cast 8 (2 + 1) = (3::int)"
  by code_simp

text \<open>
  Claim C4, amended. For every counter configured with \<open>COUNTER_ALLOC_GLOBAL\<close> and
  \<open>COUNTER_SYNC_GLOBAL\<close>, every delta and every step, \<open>lttng_counter_add\<close> on a cell
  that the global layout holds succeeds with exactly one compare-and-swap: a
  \<open>cmpxchg\<close> on the global cell, from a value \<open>old\<close> that the cell held (its own
  content when nobody else writes) to the wrapped \<open>old + delta\<close>. The primitive returns
  0, nothing is moved, and the per-CPU storage and the step are untouched.
\<close>

theorem global_add_with_global_sync:
  assumes "alloc cfg = COUNTER_ALLOC_GLOBAL" and "sync cfg = COUNTER_SYNC_GLOBAL"
    and "lttng_counter_get_index counter dimension_indexes = index"
    and "index < allocated_elem counter"
    and "layout_has index (global_counters counter)"
  shows "\<exists>r e.
           dunder_lttng_counter_add cpu cfg (alloc cfg) (sync cfg) counter dimension_indexes v sched
             = Inr r
         \<and> lttng_counter_add cpu cfg counter dimension_indexes v sched sched'
             = Inr (counter_after r, [e])
         \<and> move_sum r = 0
         \<and> ev_kind e = CMPXCHG \<and> ev_alloc e = COUNTER_ALLOC_GLOBAL \<and> ev_index e = index
         \<and> ev_old e \<in> set (counters (global_counters counter) ! nat index # sched)
         \<and> (sched = [] \<longrightarrow> ev_old e = counters (global_counters counter) ! nat index)
         \<and> ev_new e = s_cast (size_bits (counter_size cfg)) (ev_old e + v)
         \<and> counters (global_counters (counter_after r)) ! nat index = ev_new e
         \<and> percpu_counters (counter_after r) = percpu_counters counter
         \<and> global_sum_step (counter_after r) = global_sum_step counter"
proof -
  let ?w = "size_bits (counter_size cfg)"
  let ?gl = "global_counters counter"
  have gl: "get_layout COUNTER_ALLOC_GLOBAL cpu counter = Inr ?gl"
    by (simp add: get_layout_def)
  from dunder_add_step [OF assms(3,4) gl assms(5), of cfg COUNTER_SYNC_GLOBAL v sched]
  obtain r e l' where
    run: "dunder_lttng_counter_add cpu cfg COUNTER_ALLOC_GLOBAL COUNTER_SYNC_GLOBAL counter
            dimension_indexes v sched = Inr r"
    and ev: "events r = [e]" and ea: "ev_alloc e = COUNTER_ALLOC_GLOBAL"
    and ei: "ev_index e = index"
    and cs: "cell_switch COUNTER_SYNC_GLOBAL ?w (global_sum_step counter) v
               (counters ?gl ! nat index) sched = (ev_kind e, ev_old e, ev_new e, move_sum r)"
    and ca: "counter_after r = put_layout COUNTER_ALLOC_GLOBAL cpu l' counter"
    and lc: "counters l' = (counters ?gl)[nat index := ev_new e]"
    and lo: "length (overflow_bitmap l') = length (overflow_bitmap ?gl)"
    and lu: "length (underflow_bitmap l') = length (underflow_bitmap ?gl)"
    by blast
  note st = cell_switch_stored [OF cs]
  have m0: "move_sum r = 0" and k: "ev_kind e = CMPXCHG" using st(2) by simp_all
  have new: "ev_new e = s_cast ?w (ev_old e + v)"
    using st(1) m0 by (simp add: s_cast_s_cast)
  have cell: "counters (global_counters (counter_after r)) ! nat index = ev_new e"
    using layout_has_update(2) [OF assms(5) lc lo lu] by (simp add: ca put_layout_global)
  have add: "lttng_counter_add cpu cfg counter dimension_indexes v sched sched'
               = Inr (counter_after r, [e])"
    using run ev assms(1,2)
    by (simp add: lttng_counter_add_def dunder_lttng_counter_add_global_def)
  show ?thesis
    using run add m0 k ea ei st(4,5) new cell assms(1,2)
    by (intro exI [of _ r] exI [of _ e]) (simp add: ca put_layout_global put_layout_frame)
qed

theorem global_add_with_global_sync_witness:
  "lttng_counter_add 0 config8_global (counter4_with config8_global 2 (layout4 2) []) [2] 1 [] []
     = Inr (counter4_with config8_global 2 (layout4 3) [],
            [\<lparr>ev_kind = CMPXCHG, ev_alloc = COUNTER_ALLOC_GLOBAL, ev_index = 2,
              ev_old = 2, ev_new = 3\<rparr>])
   \<and> (3::int) = s_cast 8 (2 + 1)"
proof -
  let ?c = "counter4_with config8_global 2 (layout4 2) []"
  have a: "alloc config8_global = COUNTER_ALLOC_GLOBAL"
    and s: "sync config8_global = COUNTER_SYNC_GLOBAL"
    by (simp_all add: config8_global_def config8_def)
  have i: "lttng_counter_get_index ?c [2] = 2" by code_simp
  have b: "2 < allocated_elem ?c" by (simp add: counter4_with_def)
  have h: "layout_has 2 (global_counters ?c)" by code_simp
  have run: "lttng_counter_add 0 config8_global ?c [2] 1 [] []
               = Inr (counter4_with config8_global 2 (layout4 3) [],
                      [\<lparr>ev_kind = CMPXCHG, ev_alloc = COUNTER_ALLOC_GLOBAL, ev_index = 2,
                        ev_old = 2, ev_new = 3\<rparr>])"
    by code_simp
  have n: "s_cast 8 (2 + 1) = (3::int)" by code_simp
  show ?thesis
    using global_add_with_global_sync [OF a s i b h, of 0 1 "[]" "[]"] run n by simp
qed

section \<open>Repeated increments\<close>

lemma percpu_inc_step:
  assumes cfg: "alloc cfg = COUNTER_ALLOC_PER_CPU" "sync cfg = COUNTER_SYNC_PER_CPU"
    and rdy: "cell_ready cpu di index c"
    and S: "2 \<le> global_sum_step c"
           "global_sum_step c + 1 < 2 ^ (size_bits (counter_size cfg) - 1)"
    and x: "0 \<le> counters (percpu_counters c ! cpu) ! nat index"
           "counters (percpu_counters c ! cpu) ! nat index \<le> global_sum_step c"
  shows "\<exists>c' evs.
           lttng_counter_inc cpu cfg c di [] [] = Inr (c', evs)
         \<and> cell_ready cpu di index c'
         \<and> global_sum_step c' = global_sum_step c
         \<and> 0 \<le> counters (percpu_counters c' ! cpu) ! nat index
         \<and> counters (percpu_counters c' ! cpu) ! nat index \<le> global_sum_step c
         \<and> (on_global evs = 0
               \<and> counters (global_counters c') ! nat index
                   = counters (global_counters c) ! nat index
             \<or> on_global evs = 1
               \<and> counters (global_counters c') ! nat index
                   = s_cast (size_bits (counter_size cfg))
                       (counters (global_counters c) ! nat index + global_sum_step c div 2))"
proof -
  let ?w = "size_bits (counter_size cfg)"
  let ?S = "global_sum_step c"
  let ?x = "counters (percpu_counters c ! cpu) ! nat index"
  let ?g = "counters (global_counters c) ! nat index"
  let ?pl = "percpu_counters c ! cpu"
  from rdy have gi: "lttng_counter_get_index c di = index" and ia: "index < allocated_elem c"
    and cpu: "cpu < length (percpu_counters c)"
    and ph: "layout_has index ?pl" and gh: "layout_has index (global_counters c)"
    by (simp_all add: cell_ready_def)
  have pl: "get_layout COUNTER_ALLOC_PER_CPU cpu c = Inr ?pl"
    using cpu by (simp add: get_layout_def)
  from dunder_add_step [OF gi ia pl ph, of cfg COUNTER_SYNC_PER_CPU 1 "[]"]
  obtain r e l' where
    run: "dunder_lttng_counter_add cpu cfg COUNTER_ALLOC_PER_CPU COUNTER_SYNC_PER_CPU c di 1 [] = Inr r"
    and ev: "events r = [e]" and ea: "ev_alloc e = COUNTER_ALLOC_PER_CPU"
    and cs: "cell_switch COUNTER_SYNC_PER_CPU ?w ?S 1 ?x [] = (ev_kind e, ev_old e, ev_new e, move_sum r)"
    and ca: "counter_after r = put_layout COUNTER_ALLOC_PER_CPU cpu l' c"
    and lc: "counters l' = (counters ?pl)[nat index := ev_new e]"
    and lo: "length (overflow_bitmap l') = length (overflow_bitmap ?pl)"
    and lu: "length (underflow_bitmap l') = length (underflow_bitmap ?pl)"
    by blast
  have S0: "0 \<le> ?S" and S1: "?S < 2 ^ (?w - 1)" using S by linarith+
  have n: "s_cast ?w (?x + 1) = ?x + 1"
    using x S by (intro s_cast_id) linarith+
  have att: "percpu_attempt ?w ?S 1 ?x = (ev_new e, move_sum r)"
    using cs by (auto simp: cell_switch_def split: prod.splits)
  have res: "if ?x < ?S then ev_new e = ?x + 1 \<and> move_sum r = 0
             else ev_new e = ?S + 1 - ?S div 2 \<and> move_sum r = ?S div 2"
    using att x S0 by (auto simp: percpu_attempt_cases [OF S0 S1] Let_def n split: if_splits)
  let ?c1 = "counter_after r"
  have h1: "layout_has index l'" and c1x: "counters l' ! nat index = ev_new e"
    using layout_has_update [OF ph lc lo lu] by simp_all
  have c1p: "percpu_counters ?c1 ! cpu = l'" and c1g: "global_counters ?c1 = global_counters c"
    using cpu by (simp_all add: ca put_layout_percpu)
  have rdy1: "cell_ready cpu di index ?c1"
    using gi ia cpu h1 gh c1p c1g by (simp add: cell_ready_def ca put_layout_frame)
  have step1: "global_sum_step ?c1 = ?S" by (simp add: ca put_layout_frame)
  have bound: "0 \<le> ev_new e \<and> ev_new e \<le> ?S"
    using res x S by (auto split: if_splits)
  show ?thesis
  proof (cases "?x < ?S")
    case True
    with res have m0: "move_sum r = 0" by simp
    have "lttng_counter_inc cpu cfg c di [] [] = Inr (?c1, [e])"
      using run ev m0 cfg
      by (simp add: lttng_counter_inc_def lttng_counter_add_def dunder_lttng_counter_add_percpu_def)
    moreover have "on_global [e] = 0" using ea by (simp add: on_global_def)
    ultimately show ?thesis
      using rdy1 step1 bound c1p c1x c1g by (intro exI [of _ ?c1] exI [of _ "[e]"]) simp
  next
    case False
    with res have mv: "move_sum r = ?S div 2" by simp
    with S have m1: "move_sum r \<noteq> 0" by linarith
    have gi1: "lttng_counter_get_index ?c1 di = index" and ia1: "index < allocated_elem ?c1"
      using gi ia by (simp_all add: ca put_layout_frame)
    have gl: "get_layout COUNTER_ALLOC_GLOBAL cpu ?c1 = Inr (global_counters c)"
      by (simp add: get_layout_def c1g)
    from dunder_add_step [OF gi1 ia1 gl gh, of cfg COUNTER_SYNC_GLOBAL "move_sum r" "[]"]
    obtain r' e' l'' where
      run': "dunder_lttng_counter_add cpu cfg COUNTER_ALLOC_GLOBAL COUNTER_SYNC_GLOBAL ?c1 di
               (move_sum r) [] = Inr r'"
      and ev': "events r' = [e']" and ea': "ev_alloc e' = COUNTER_ALLOC_GLOBAL"
      and cs': "cell_switch COUNTER_SYNC_GLOBAL ?w (global_sum_step ?c1) (move_sum r) ?g []
                  = (ev_kind e', ev_old e', ev_new e', move_sum r')"
      and ca': "counter_after r' = put_layout COUNTER_ALLOC_GLOBAL cpu l'' ?c1"
      and lc': "counters l'' = (counters (global_counters c))[nat index := ev_new e']"
      and lo': "length (overflow_bitmap l'') = length (overflow_bitmap (global_counters c))"
      and lu': "length (underflow_bitmap l'') = length (underflow_bitmap (global_counters c))"
      by blast
    let ?c2 = "counter_after r'"
    have new': "ev_new e' = s_cast ?w (?g + ?S div 2)"
      using cs' mv by (auto simp: cell_switch_def global_attempt_def)
    have h2: "layout_has index l''" and c2x: "counters l'' ! nat index = ev_new e'"
      using layout_has_update [OF gh lc' lo' lu'] by simp_all
    have c2g: "global_counters ?c2 = l''" and c2p: "percpu_counters ?c2 = percpu_counters ?c1"
      by (simp_all add: ca' put_layout_global)
    have rdy2: "cell_ready cpu di index ?c2"
      using gi1 ia1 cpu h1 h2 c1p c2g c2p
      by (simp add: cell_ready_def ca' put_layout_frame ca)
    have step2: "global_sum_step ?c2 = ?S" by (simp add: ca' put_layout_frame step1)
    have "lttng_counter_inc cpu cfg c di [] [] = Inr (?c2, [e, e'])"
      using run ev m1 run' ev' cfg
      by (simp add: lttng_counter_inc_def lttng_counter_add_def dunder_lttng_counter_add_percpu_def)
    moreover have "on_global [e, e'] = 1" using ea ea' by (simp add: on_global_def)
    ultimately show ?thesis
      using rdy2 step2 bound c1p c1x c2p c2g c2x new'
      by (intro exI [of _ ?c2] exI [of _ "[e, e']"]) simp
  qed
qed

lemma inc_run_invariant:
  assumes cfg: "alloc cfg = COUNTER_ALLOC_PER_CPU" "sync cfg = COUNTER_SYNC_PER_CPU"
    and rdy: "cell_ready cpu di index c"
    and S: "2 \<le> global_sum_step c"
           "global_sum_step c + 1 < 2 ^ (size_bits (counter_size cfg) - 1)"
    and x: "counters (percpu_counters c ! cpu) ! nat index = 0"
    and g: "counters (global_counters c) ! nat index = 0"
  shows "\<exists>c' K.
           inc_run m cpu cfg di c = Inr (c', K)
         \<and> cell_ready cpu di index c'
         \<and> global_sum_step c' = global_sum_step c
         \<and> 0 \<le> counters (percpu_counters c' ! cpu) ! nat index
         \<and> counters (percpu_counters c' ! cpu) ! nat index \<le> global_sum_step c
         \<and> counters (global_counters c') ! nat index
             = s_cast (size_bits (counter_size cfg)) (int K * (global_sum_step c div 2))"
proof (induction m)
  case 0
  show ?case using rdy S x g by (simp add: s_cast_def)
next
  case (Suc m)
  let ?w = "size_bits (counter_size cfg)"
  let ?h = "global_sum_step c div 2"
  from Suc obtain c' K where
    run: "inc_run m cpu cfg di c = Inr (c', K)"
    and rdy': "cell_ready cpu di index c'"
    and st: "global_sum_step c' = global_sum_step c"
    and x0: "0 \<le> counters (percpu_counters c' ! cpu) ! nat index"
    and x1: "counters (percpu_counters c' ! cpu) ! nat index \<le> global_sum_step c"
    and g': "counters (global_counters c') ! nat index = s_cast ?w (int K * ?h)"
    by blast
  from percpu_inc_step [OF cfg rdy', unfolded st, OF S x0 x1]
  obtain c'' evs where
    inc: "lttng_counter_inc cpu cfg c' di [] [] = Inr (c'', evs)"
    and rdy'': "cell_ready cpu di index c''"
    and st'': "global_sum_step c'' = global_sum_step c"
    and y0: "0 \<le> counters (percpu_counters c'' ! cpu) ! nat index"
    and y1: "counters (percpu_counters c'' ! cpu) ! nat index \<le> global_sum_step c"
    and gg: "on_global evs = 0
               \<and> counters (global_counters c'') ! nat index
                   = counters (global_counters c') ! nat index
             \<or> on_global evs = 1
               \<and> counters (global_counters c'') ! nat index
                   = s_cast ?w (counters (global_counters c') ! nat index + ?h)"
    by blast
  have run': "inc_run (Suc m) cpu cfg di c = Inr (c'', K + on_global evs)"
    using run inc by simp
  have "int K * ?h + ?h = int (K + 1) * ?h"
    by (simp add: algebra_simps)
  then have "s_cast ?w (s_cast ?w (int K * ?h) + ?h) = s_cast ?w (int (K + 1) * ?h)"
    using s_cast_add_left [of ?w "int K * ?h" ?h] by simp
  then have "counters (global_counters c'') ! nat index = s_cast ?w (int (K + on_global evs) * ?h)"
    using gg g' by (auto simp: add.commute)
  then show ?case
    using run' rdy'' st'' y0 y1 by (intro exI [of _ c''] exI [of _ "K + on_global evs"]) simp
qed

text \<open>
  Claim C6, as the claim states it: for every step \<open>S > 0\<close>, repeated increments keep
  the magnitude of the per-CPU cell within \<open>S\<close>, and after \<open>K\<close> migrations the global
  cell holds \<open>K * (S / 2)\<close>. On created 8-bit per-CPU counters: with \<open>S = 1\<close> two
  increments leave 2 in the cell and nothing is ever migrated, since \<open>S / 2 = 0\<close>; with
  \<open>S = 127\<close>, the cell type's maximum, the 128th increment wraps to \<open>-128\<close>, so that
  \<open>-63\<close> is migrated and the global cell holds \<open>-63\<close> after one migration; with
  \<open>S = 2\<close> the global cell has wrapped to \<open>-128\<close> after 128 migrations.
\<close>

theorem percpu_increments_counterexample:
  "fst (lttng_counter_create kernel2 config8_percpu [4] 1)
     = Some (counter4_with config8_percpu 1 (layout4 0) [layout4 0, layout4 0])
   \<and> inc_run 2 0 config8_percpu [2]
         (counter4_with config8_percpu 1 (layout4 0) [layout4 0, layout4 0])
     = Inr (counter4_with config8_percpu 1 (layout4 0) [layout4 2, layout4 0], 0)
   \<and> fst (lttng_counter_create kernel2 config8_percpu [4] 127)
     = Some (counter4_with config8_percpu 127 (layout4 0) [layout4 0, layout4 0])
   \<and> inc_run 128 0 config8_percpu [2]
         (counter4_with config8_percpu 127 (layout4 0) [layout4 0, layout4 0])
     = Inr (counter4_with config8_percpu 127 (layout4 (- 63)) [layout4_ov (- 65), layout4 0], 1)
   \<and> fst (lttng_counter_create kernel2 config8_percpu [4] 2)
     = Some (counter4_with config8_percpu 2 (layout4 0) [layout4 0, layout4 0])
   \<and> inc_run 130 0 config8_percpu [2]
         (counter4_with config8_percpu 2 (layout4 0) [layout4 0, layout4 0])
     = Inr (counter4_with config8_percpu 2 (layout4_ov (- 128)) [layout4 2, layout4 0], 128)"
  by code_simp

text \<open>
  Claim C6, amended. For every sequential run of increments on a counter with per-CPU
  allocation and \<open>cmpxchg_local\<close> synchronisation, with a step \<open>S\<close> of at least 2 and
  below the maximum of the signed cell type, started with 0 in the per-CPU cell and in
  the global cell: every run succeeds, after each number of increments the per-CPU cell
  is within \<open>S\<close> in magnitude, and after \<open>K\<close> migrations the global cell holds
  \<open>K * (S / 2)\<close> wrapped at the cell width, which is \<open>K * (S / 2)\<close> itself as long as
  that fits the cell.
\<close>

theorem percpu_increments_stay_in_band:
  assumes "alloc cfg = COUNTER_ALLOC_PER_CPU" and "sync cfg = COUNTER_SYNC_PER_CPU"
    and "cell_ready cpu dimension_indexes index counter"
    and "2 \<le> global_sum_step counter"
    and "global_sum_step counter < 2 ^ (size_bits (counter_size cfg) - 1) - 1"
    and "counters (percpu_counters counter ! cpu) ! nat index = 0"
    and "counters (global_counters counter) ! nat index = 0"
  shows "\<exists>counter' K.
           inc_run m cpu cfg dimension_indexes counter = Inr (counter', K)
         \<and> \<bar>counters (percpu_counters counter' ! cpu) ! nat index\<bar> \<le> global_sum_step counter
         \<and> counters (global_counters counter') ! nat index
             = s_cast (size_bits (counter_size cfg)) (int K * (global_sum_step counter div 2))
         \<and> (int K * (global_sum_step counter div 2) < 2 ^ (size_bits (counter_size cfg) - 1) \<longrightarrow>
              counters (global_counters counter') ! nat index
              = int K * (global_sum_step counter div 2))"
proof -
  let ?w = "size_bits (counter_size cfg)"
  let ?h = "global_sum_step counter div 2"
  have S: "global_sum_step counter + 1 < 2 ^ (?w - 1)" using assms(5) by linarith
  from inc_run_invariant [OF assms(1,2,3,4) S assms(6,7), of m]
  obtain c' K where
    run: "inc_run m cpu cfg dimension_indexes counter = Inr (c', K)"
    and x0: "0 \<le> counters (percpu_counters c' ! cpu) ! nat index"
    and x1: "counters (percpu_counters c' ! cpu) ! nat index \<le> global_sum_step counter"
    and g: "counters (global_counters c') ! nat index = s_cast ?w (int K * ?h)"
    by blast
  have h0: "0 \<le> int K * ?h" using assms(4) by simp
  have "int K * ?h < 2 ^ (?w - 1) \<longrightarrow> s_cast ?w (int K * ?h) = int K * ?h"
  proof
    assume lt: "int K * ?h < 2 ^ (?w - 1)"
    have "- (2 ^ (?w - 1)) \<le> (0::int)" by simp
    with h0 have "- (2 ^ (?w - 1)) \<le> int K * ?h" by linarith
    then show "s_cast ?w (int K * ?h) = int K * ?h" using lt by (rule s_cast_id)
  qed
  then show ?thesis
    using run x0 x1 g by (intro exI [of _ c'] exI [of _ K]) simp
qed

theorem percpu_increments_stay_in_band_witness:
  "inc_run 7 0 config8_percpu [2]
       (counter4_with config8_percpu 4 (layout4 0) [layout4 0, layout4 0])
     = Inr (counter4_with config8_percpu 4 (layout4 4) [layout4_ov 3, layout4 0], 2)
   \<and> \<bar>3\<bar> \<le> (4::int) \<and> (4::int) = int 2 * (4 div 2)"
proof -
  let ?c = "counter4_with config8_percpu 4 (layout4 0) [layout4 0, layout4 0]"
  have a: "alloc config8_percpu = COUNTER_ALLOC_PER_CPU"
    and s: "sync config8_percpu = COUNTER_SYNC_PER_CPU"
    by (simp_all add: config8_percpu_def config8_def)
  have r: "cell_ready 0 [2] 2 ?c" by code_simp
  have s0: "2 \<le> global_sum_step ?c" by (simp add: counter4_with_def)
  have s1: "global_sum_step ?c < 2 ^ (size_bits (counter_size config8_percpu) - 1) - 1"
    by (simp add: counter4_with_def config8_percpu_def config8_def size_bits_def)
  have x: "counters (percpu_counters ?c ! 0) ! nat 2 = 0"
    and g: "counters (global_counters ?c) ! nat 2 = 0"
    by (simp_all add: counter4_with_def layout4_def)
  have run: "inc_run 7 0 config8_percpu [2] ?c
               = Inr (counter4_with config8_percpu 4 (layout4 4) [layout4_ov 3, layout4 0], 2)"
    by code_simp
  show ?thesis
    using percpu_increments_stay_in_band [OF a s r s0 s1 x g, of 7] run by simp
qed

section \<open>Aggregation\<close>

text \<open>
  Claim C8. The claim: \<open>lttng_counter_aggregate\<close> returns the wrapped sum of the global
  cell and of every CPU's cell, so that C shards incremented M times each aggregate to
  \<open>C * M\<close>. On the created 32-bit per-CPU counter, CPU 0 and CPU 1 increment the cell of
  index 2 once each; both cells read 1. The aggregation returns 0 (success) with both
  flags clear, and the caller's \<open>*value\<close> is what it was before the call, 0 or 77, not
  2: the sum is computed and never stored.
\<close>

theorem aggregate_leaves_value_unwritten:
  "fst (lttng_counter_create kernel2 config32_percpu [4] 0)
     = Some (counter4_with config32_percpu 0 (layout4 0) [layout4 0, layout4 0])
   \<and> lttng_counter_inc 0 config32_percpu
         (counter4_with config32_percpu 0 (layout4 0) [layout4 0, layout4 0]) [2] [] []
     = Inr (counter4_with config32_percpu 0 (layout4 0) [layout4 1, layout4 0],
            [\<lparr>ev_kind = CMPXCHG_LOCAL, ev_alloc = COUNTER_ALLOC_PER_CPU, ev_index = 2,
              ev_old = 0, ev_new = 1\<rparr>])
   \<and> lttng_counter_inc 1 config32_percpu
         (counter4_with config32_percpu 0 (layout4 0) [layout4 1, layout4 0]) [2] [] []
     = Inr (counter4_with config32_percpu 0 (layout4 0) [layout4 1, layout4 1],
            [\<lparr>ev_kind = CMPXCHG_LOCAL, ev_alloc = COUNTER_ALLOC_PER_CPU, ev_index = 2,
              ev_old = 0, ev_new = 1\<rparr>])
   \<and> lttng_counter_read kernel2 config32_percpu
         (counter4_with config32_percpu 0 (layout4 0) [layout4 1, layout4 1]) [2] 0
     = Inr (1, False, False)
   \<and> lttng_counter_read kernel2 config32_percpu
         (counter4_with config32_percpu 0 (layout4 0) [layout4 1, layout4 1]) [2] 1
     = Inr (1, False, False)
   \<and> lttng_counter_aggregate kernel2 config32_percpu
         (counter4_with config32_percpu 0 (layout4 0) [layout4 1, layout4 1]) [2] 0
     = (None, 0, False, False)
   \<and> lttng_counter_aggregate kernel2 config32_percpu
         (counter4_with config32_percpu 0 (layout4 0) [layout4 1, layout4 1]) [2] 77
     = (None, 77, False, False)"
  by code_simp

end
